theory Spec2Isabelle
  imports
    Complex_Main
    "HOL-Library.Multiset"
    "HOL-Library.Char_ord"
    "HOL-Library.List_Lexorder"
    "HOL-Library.Product_Lexorder"
begin

section \<open>Column values\<close>

text \<open>
  A numeric cell of a pandas \<open>float64\<close> column is an IEEE 754 binary64 value. \<open>Fin q\<close> is
  the finite value \<open>q\<close>, with \<open>Fin 0\<close> for \<open>+0.0\<close> and \<open>NegZero\<close> for \<open>-0.0\<close>; \<open>PInf\<close> and
  \<open>NInf\<close> are the two infinities; \<open>NaN\<close> is both "not a number" and the missing value
  (pandas has one representation for the two in a float column).
\<close>

datatype fval = Fin rat | NegZero | PInf | NInf | NaN

definition is_zero :: "fval \<Rightarrow> bool" where
  "is_zero x = (x = Fin 0 \<or> x = NegZero)"

definition is_inf :: "fval \<Rightarrow> bool" where
  "is_inf x = (x = PInf \<or> x = NInf)"

definition is_finite :: "fval \<Rightarrow> bool" where
  "is_finite x = (case x of Fin a \<Rightarrow> True | NegZero \<Rightarrow> True | _ \<Rightarrow> False)"

text \<open>The number a finite cell stands for (both zeros stand for 0), and the sign bit.\<close>

fun fin_val :: "fval \<Rightarrow> rat" where
  "fin_val (Fin a) = a"
| "fin_val x = 0"

fun sign_bit :: "fval \<Rightarrow> bool" where
  "sign_bit (Fin a) = (a < 0)"
| "sign_bit NegZero = True"
| "sign_bit PInf = False"
| "sign_bit NInf = True"
| "sign_bit NaN = False"

definition signed_zero :: "bool \<Rightarrow> fval" where
  "signed_zero neg = (if neg then NegZero else Fin 0)"

definition signed_inf :: "bool \<Rightarrow> fval" where
  "signed_inf neg = (if neg then NInf else PInf)"

subsection \<open>Rounding to binary64\<close>

text \<open>
  \<open>log2_floor x\<close> is the exponent \<open>e\<close> with \<open>2^e \<le> x < 2^(e+1)\<close> of a positive \<open>x\<close>.
\<close>

function log2_floor :: "rat \<Rightarrow> int" where
  "log2_floor x =
     (if x \<le> 0 then 0
      else if 2 \<le> x then log2_floor (x / 2) + 1
      else if x < 1 then log2_floor (x * 2) - 1
      else 0)"
  by pat_completeness auto

termination
proof (relation "measure (\<lambda>x. if 1 \<le> x then nat \<lfloor>x\<rfloor> else nat \<lceil>1 / x\<rceil>)")
  show "wf (measure (\<lambda>x::rat. if 1 \<le> x then nat \<lfloor>x\<rfloor> else nat \<lceil>1 / x\<rceil>))"
    by simp
next
  fix x :: rat
  assume "\<not> x \<le> 0" "2 \<le> x"
  then have "\<lfloor>x / 2\<rfloor> < \<lfloor>x\<rfloor>" "0 < \<lfloor>x\<rfloor>"
    by linarith+
  then show "(x / 2, x) \<in> measure (\<lambda>x. if 1 \<le> x then nat \<lfloor>x\<rfloor> else nat \<lceil>1 / x\<rceil>)"
    using \<open>2 \<le> x\<close> by simp
next
  fix x :: rat
  assume h: "\<not> x \<le> 0" "\<not> 2 \<le> x" "x < 1"
  then have x: "0 < x" by simp
  then have big: "1 < 1 / x" using h by (simp add: field_simps)
  show "(x * 2, x) \<in> measure (\<lambda>x. if 1 \<le> x then nat \<lfloor>x\<rfloor> else nat \<lceil>1 / x\<rceil>)"
  proof (cases "1 \<le> x * 2")
    case True
    then have "\<lfloor>x * 2\<rfloor> = 1" using h by linarith
    moreover have "2 \<le> \<lceil>1 / x\<rceil>" using big by linarith
    ultimately show ?thesis using True h by simp
  next
    case False
    then have "2 < 1 / x" using x by (simp add: field_simps)
    moreover have "1 / (x * 2) = (1 / x) / 2" by simp
    ultimately have "\<lceil>1 / (x * 2)\<rceil> < \<lceil>1 / x\<rceil>" by linarith
    moreover have "0 < \<lceil>1 / x\<rceil>" using big by linarith
    ultimately show ?thesis using False h by simp
  qed
qed

declare log2_floor.simps [simp del]

text \<open>The nearest integer, the even one of the two when the distance is the same.\<close>

definition round_half_even :: "rat \<Rightarrow> int" where
  "round_half_even y =
     (let n = \<lfloor>y\<rfloor>; d = y - of_int n
      in if d < 1 / 2 then n
         else if 1 / 2 < d then n + 1
         else if even n then n else n + 1)"

text \<open>
  Round to nearest, ties to even, as the hardware does after every operation. A binary64
  value has 53 significant bits and an exponent of at least -1022, so the values near
  \<open>x\<close> are the multiples of \<open>2^(e - 52)\<close> with \<open>e\<close> the exponent of \<open>x\<close>, or -1022 if that
  is larger (the subnormal range). A result of \<open>2^1024\<close> or more is an overflow and gives
  an infinity; a result that rounds to zero keeps the sign.
\<close>

definition round64 :: "rat \<Rightarrow> fval" where
  "round64 x =
     (if x = 0 then Fin 0
      else
        (let e = max (log2_floor \<bar>x\<bar>) (- 1022);
             q = 2 powi (e - 52);
             r = of_int (round_half_even (\<bar>x\<bar> / q)) * q
         in if 2 powi 1024 \<le> r then signed_inf (x < 0)
            else if r = 0 then signed_zero (x < 0)
            else Fin (if x < 0 then - r else r)))"

subsection \<open>Arithmetic\<close>

text \<open>
  The operations of numpy on \<open>float64\<close>: no exception, a \<open>NaN\<close> operand gives \<open>NaN\<close>, the
  undefined forms (\<open>inf - inf\<close>, \<open>0 * inf\<close>, \<open>inf / inf\<close>, \<open>0 / 0\<close>) give \<open>NaN\<close>, a nonzero
  value over zero gives an infinity, and the sign of a zero or infinite product or
  quotient is the exclusive or of the operands' signs. Otherwise the exact result is
  rounded.
\<close>

fun fneg :: "fval \<Rightarrow> fval" where
  "fneg (Fin a) = (if a = 0 then NegZero else Fin (- a))"
| "fneg NegZero = Fin 0"
| "fneg PInf = NInf"
| "fneg NInf = PInf"
| "fneg NaN = NaN"

definition fadd :: "fval \<Rightarrow> fval \<Rightarrow> fval" where
  "fadd x y =
     (if x = NaN \<or> y = NaN then NaN
      else if is_inf x then (if is_inf y \<and> x \<noteq> y then NaN else x)
      else if is_inf y then y
      else if fin_val x + fin_val y = 0
        then (if x = NegZero \<and> y = NegZero then NegZero else Fin 0)
      else round64 (fin_val x + fin_val y))"

definition fsub :: "fval \<Rightarrow> fval \<Rightarrow> fval" where
  "fsub x y = fadd x (fneg y)"

definition fmul :: "fval \<Rightarrow> fval \<Rightarrow> fval" where
  "fmul x y =
     (if x = NaN \<or> y = NaN then NaN
      else if is_inf x \<or> is_inf y
        then (if is_zero x \<or> is_zero y then NaN else signed_inf (sign_bit x \<noteq> sign_bit y))
      else if is_zero x \<or> is_zero y then signed_zero (sign_bit x \<noteq> sign_bit y)
      else round64 (fin_val x * fin_val y))"

definition fdiv :: "fval \<Rightarrow> fval \<Rightarrow> fval" where
  "fdiv x y =
     (if x = NaN \<or> y = NaN then NaN
      else if is_inf x
        then (if is_inf y then NaN else signed_inf (sign_bit x \<noteq> sign_bit y))
      else if is_inf y then signed_zero (sign_bit x \<noteq> sign_bit y)
      else if is_zero y
        then (if is_zero x then NaN else signed_inf (sign_bit x \<noteq> sign_bit y))
      else if is_zero x then signed_zero (sign_bit x \<noteq> sign_bit y)
      else round64 (fin_val x / fin_val y))"

section \<open>Tables of the aggregation pipeline\<close>

text \<open>
  One row of the loaded data frame. The pipeline reads the columns \<open>Country Name\<close>,
  \<open>Year\<close> and \<open>GDP\<close>; every other column the file has (\<open>Country Code\<close>, \<open>Region\<close>, ...)
  travels in the extension part of the record, so the functions below are polymorphic
  in it and cannot look at it. A table is the list of its rows, in frame order.

  The column \<open>GDP Growth %\<close> is the one column the pipeline writes, so a frame says
  whether it has it: \<open>Plain\<close> is a frame without that column, \<open>WithGrowth\<close> a frame with
  it, each row beside its growth value.
\<close>

record row =
  country_name :: string
  year :: int
  gdp :: fval

datatype 'a frame = Plain "('a row_scheme) list" | WithGrowth "('a row_scheme \<times> fval) list"

fun frame_rows :: "'a frame \<Rightarrow> ('a row_scheme) list" where
  "frame_rows (Plain rs) = rs"
| "frame_rows (WithGrowth ps) = map fst ps"

text \<open>\<open>df["GDP Growth %"]\<close> where the frame has the column, \<open>None\<close> where it has not.\<close>

fun growth_values :: "'a frame \<Rightarrow> fval list option" where
  "growth_values (Plain rs) = None"
| "growth_values (WithGrowth ps) = Some (map snd ps)"

subsection \<open>Filtering (app.py, lines 86-90)\<close>

text \<open>
  \<open>df["Year"] >= year_range[0]\<close>, \<open>df["Year"] <= year_range[1]\<close> and
  \<open>df["Country Name"].isin(selected_countries)\<close> are boolean columns; \<open>&\<close> combines them
  element by element, and \<open>df[mask]\<close> keeps the rows whose mask entry is true.
\<close>

definition ge_col :: "int list \<Rightarrow> int \<Rightarrow> bool list" where
  "ge_col col lo = map (\<lambda>y. lo \<le> y) col"

definition le_col :: "int list \<Rightarrow> int \<Rightarrow> bool list" where
  "le_col col hi = map (\<lambda>y. y \<le> hi) col"

definition isin :: "string list \<Rightarrow> string list \<Rightarrow> bool list" where
  "isin col selected = map (\<lambda>c. List.member selected c) col"

definition and_col :: "bool list \<Rightarrow> bool list \<Rightarrow> bool list" where
  "and_col xs ys = map2 (\<and>) xs ys"

definition getitem_mask :: "'r list \<Rightarrow> bool list \<Rightarrow> 'r list" where
  "getitem_mask df bmask = map fst (filter snd (zip df bmask))"

definition filtered_df ::
  "('a row_scheme) list \<Rightarrow> int \<times> int \<Rightarrow> string list \<Rightarrow> ('a row_scheme) list" where
  "filtered_df df year_range selected_countries =
     getitem_mask df
       (and_col
          (and_col (ge_col (map year df) (fst year_range))
                   (le_col (map year df) (snd year_range)))
          (isin (map country_name df) selected_countries))"

subsection \<open>Growth (app.py, lines 93-96)\<close>

text \<open>
  \<open>sort_values(by=["Country Name", "Year"])\<close>: ascending, lexicographic on the two keys;
  strings compare character by character. With more than one key pandas sorts stably
  (rows with equal keys keep their input order), which is what \<open>sort_key\<close> computes.
  The result is a new frame with the same columns.
\<close>

definition sort_keys :: "'a row_scheme \<Rightarrow> string \<times> int" where
  "sort_keys r = (country_name r, year r)"

definition sort_values :: "('a row_scheme) list \<Rightarrow> ('a row_scheme) list" where
  "sort_values df = sort_key sort_keys df"

fun sort_values_frame :: "'a frame \<Rightarrow> 'a frame" where
  "sort_values_frame (Plain rs) = Plain (sort_values rs)"
| "sort_values_frame (WithGrowth ps) = WithGrowth (sort_key (\<lambda>p. sort_keys (fst p)) ps)"

text \<open>
  \<open>groupby("Country Name")["GDP"].pct_change()\<close> is, in pandas,
  \<^verbatim>\<open>filled = <the column, forward-filled within each group>
  shifted = filled.groupby(codes).shift(1)
  return (filled / shifted) - 1\<close>
  The default of \<open>fill_method\<close> is not written in app.py and differs between pandas
  releases (forward fill up to 2.x, no filling from 3.0), so it is a parameter here.
  Both group operations walk the column once and keep, for every group key seen so far,
  the last value of that group.
\<close>

datatype fill_method = Ffill | NoFill

fun groupby_ffill :: "(string \<rightharpoonup> fval) \<Rightarrow> string list \<Rightarrow> fval list \<Rightarrow> fval list" where
  "groupby_ffill seen (k # ks) (v # vs) =
     (let f = (if v = NaN then (case seen k of None \<Rightarrow> NaN | Some p \<Rightarrow> p) else v)
      in f # groupby_ffill (seen(k \<mapsto> f)) ks vs)"
| "groupby_ffill seen ks vs = []"

fun groupby_shift :: "(string \<rightharpoonup> fval) \<Rightarrow> string list \<Rightarrow> fval list \<Rightarrow> fval list" where
  "groupby_shift seen (k # ks) (v # vs) =
     (case seen k of None \<Rightarrow> NaN | Some p \<Rightarrow> p) # groupby_shift (seen(k \<mapsto> v)) ks vs"
| "groupby_shift seen ks vs = []"

definition groupby_pct_change :: "fill_method \<Rightarrow> string list \<Rightarrow> fval list \<Rightarrow> fval list" where
  "groupby_pct_change fm ks vs =
     (let filled = (case fm of Ffill \<Rightarrow> groupby_ffill Map.empty ks vs | NoFill \<Rightarrow> vs);
          shifted = groupby_shift Map.empty ks filled
      in map2 (\<lambda>f s. fsub (fdiv f s) (Fin 1)) filled shifted)"

text \<open>
  \<open>growth_column\<close> is the right-hand side of the assignment in line 95
  (\<open>... .pct_change() * 100\<close>), computed from the columns \<open>Country Name\<close> and \<open>GDP\<close> of
  the sorted copy.
\<close>

definition growth_column :: "fill_method \<Rightarrow> ('a row_scheme) list \<Rightarrow> fval list" where
  "growth_column fm df_sorted =
     map (\<lambda>x. fmul x (Fin 100))
       (groupby_pct_change fm (map country_name df_sorted) (map gdp df_sorted))"

text \<open>
  \<open>frame["GDP Growth %"] = col\<close>: the column is added to a frame that has none, and
  replaces the old one in a frame that has it.
\<close>

definition setitem_growth :: "'a frame \<Rightarrow> fval list \<Rightarrow> 'a frame" where
  "setitem_growth f col = WithGrowth (zip (frame_rows f) col)"

text \<open>\<open>calculate_gdp_growth\<close>: sort into a copy, assign the column to the copy, return it.\<close>

definition calculate_gdp_growth :: "fill_method \<Rightarrow> 'a frame \<Rightarrow> 'a frame" where
  "calculate_gdp_growth fm df =
     (let df_sorted = sort_values_frame df
      in setitem_growth df_sorted (growth_column fm (frame_rows df_sorted)))"

subsection \<open>Vocabulary of the specification\<close>

text \<open>
  What the code computes for one row from its GDP and the previous GDP of its country,
  \<open>(cur / prev - 1) * 100\<close>; the growth formula as the specification writes it,
  \<open>(GDP[i] - GDP[i-1]) / GDP[i-1] * 100\<close>, in the same arithmetic; the rows of one
  country in a result table, in table order; the values of one group key in a column.
\<close>

definition pct_growth :: "fval \<Rightarrow> fval \<Rightarrow> fval" where
  "pct_growth cur prev = fmul (fsub (fdiv cur prev) (Fin 1)) (Fin 100)"

definition spec_growth :: "fval \<Rightarrow> fval \<Rightarrow> fval" where
  "spec_growth cur prev = fmul (fdiv (fsub cur prev) prev) (Fin 100)"

definition country_group ::
  "string \<Rightarrow> ('a row_scheme \<times> fval) list \<Rightarrow> ('a row_scheme \<times> fval) list" where
  "country_group c tbl = filter (\<lambda>p. country_name (fst p) = c) tbl"

definition group_of :: "string \<Rightarrow> string list \<Rightarrow> 'v list \<Rightarrow> 'v list" where
  "group_of c ks xs = map snd (filter (\<lambda>p. fst p = c) (zip ks xs))"

text \<open>The rows of the result of \<open>calculate_gdp_growth\<close>, each beside its growth value.\<close>

definition rows_with_growth ::
  "fill_method \<Rightarrow> ('a row_scheme) list \<Rightarrow> ('a row_scheme \<times> fval) list" where
  "rows_with_growth fm rs = zip (sort_values rs) (growth_column fm (sort_values rs))"

fun ffill :: "fval \<Rightarrow> fval list \<Rightarrow> fval list" where
  "ffill p [] = []"
| "ffill p (v # vs) = (let f = (if v = NaN then p else v) in f # ffill f vs)"

definition seen_or_nan :: "(string \<rightharpoonup> fval) \<Rightarrow> string \<Rightarrow> fval" where
  "seen_or_nan seen c = (case seen c of None \<Rightarrow> NaN | Some p \<Rightarrow> p)"

text \<open>
  \<open>Series.pct_change\<close> on the values of one group, in the words of its documentation:
  the (optionally forward-filled) series divided by itself shifted one place, minus one.
\<close>

definition pct_change_series :: "fill_method \<Rightarrow> fval list \<Rightarrow> fval list" where
  "pct_change_series fm vs =
     (let filled = (case fm of Ffill \<Rightarrow> ffill NaN vs | NoFill \<Rightarrow> vs)
      in map2 (\<lambda>f s. fsub (fdiv f s) (Fin 1)) filled (take (length filled) (NaN # filled)))"

subsection \<open>Example tables\<close>

text \<open>Small concrete tables, used where a general statement is applied to an input.\<close>

definition india_rows :: "row list" where
  "india_rows =
     [\<lparr>country_name = ''India'', year = 2002, gdp = Fin 99\<rparr>,
      \<lparr>country_name = ''India'', year = 2000, gdp = Fin 100\<rparr>,
      \<lparr>country_name = ''India'', year = 2001, gdp = Fin 110\<rparr>]"

definition zero_rows :: "row list" where
  "zero_rows =
     [\<lparr>country_name = ''Chad'', year = 2001, gdp = Fin 5\<rparr>,
      \<lparr>country_name = ''Chad'', year = 2000, gdp = Fin 0\<rparr>]"

definition missing_rows :: "row list" where
  "missing_rows =
     [\<lparr>country_name = ''Peru'', year = 2000, gdp = Fin 100\<rparr>,
      \<lparr>country_name = ''Peru'', year = 2001, gdp = NaN\<rparr>,
      \<lparr>country_name = ''Peru'', year = 2002, gdp = Fin 150\<rparr>]"

definition inf_rows :: "row list" where
  "inf_rows =
     [\<lparr>country_name = ''Peru'', year = 2000, gdp = PInf\<rparr>,
      \<lparr>country_name = ''Peru'', year = 2001, gdp = Fin 5\<rparr>]"

definition dup_first :: row where
  "dup_first = \<lparr>country_name = ''Peru'', year = 2000, gdp = Fin 100\<rparr>"

definition dup_second :: row where
  "dup_second = \<lparr>country_name = ''Peru'', year = 2000, gdp = Fin 200\<rparr>"

definition peru_2001 :: row where
  "peru_2001 = \<lparr>country_name = ''Peru'', year = 2001, gdp = Fin 150\<rparr>"

section \<open>Data frames as objects\<close>

text \<open>
  Whether an operation changes the frame it is given depends on which pandas calls
  build a new object and which write into an existing one. A heap is the list of the
  frame objects allocated so far, an address is an index into it, and a script variable
  holds an address.
  An address outside the heap does not arise in Python (a variable always refers to a
  live object); the operations return \<open>None\<close> for it.
\<close>

type_synonym addr = nat

type_synonym 'a heap = "'a frame list"

definition new_frame :: "'a heap \<Rightarrow> 'a frame \<Rightarrow> addr \<times> 'a heap" where
  "new_frame h f = (length h, h @ [f])"

text \<open>\<open>df[mask]\<close> builds a new frame from the selected rows.\<close>

fun getitem_mask_frame :: "'a frame \<Rightarrow> bool list \<Rightarrow> 'a frame" where
  "getitem_mask_frame (Plain rs) bmask = Plain (getitem_mask rs bmask)"
| "getitem_mask_frame (WithGrowth ps) bmask = WithGrowth (getitem_mask ps bmask)"

text \<open>Lines 86-90: the three masks are computed from \<open>df\<close>, the result is a new frame.\<close>

definition filter_step ::
  "'a heap \<Rightarrow> addr \<Rightarrow> int \<times> int \<Rightarrow> string list \<Rightarrow> (addr \<times> 'a heap) option" where
  "filter_step h df year_range selected_countries =
     (if df < length h then
        (let rs = frame_rows (h ! df);
             bmask = and_col
                       (and_col (ge_col (map year rs) (fst year_range))
                                (le_col (map year rs) (snd year_range)))
                       (isin (map country_name rs) selected_countries)
         in Some (new_frame h (getitem_mask_frame (h ! df) bmask)))
      else None)"

text \<open>
  Lines 93-96 on the heap: \<open>sort_values\<close> (without \<open>inplace=True\<close>) allocates
  \<open>df_sorted\<close>, the assignment of the growth column writes into the object \<open>df_sorted\<close>,
  and the address of \<open>df_sorted\<close> is returned.
\<close>

definition calculate_gdp_growth_obj ::
  "fill_method \<Rightarrow> 'a heap \<Rightarrow> addr \<Rightarrow> (addr \<times> 'a heap) option" where
  "calculate_gdp_growth_obj fm h df =
     (if df < length h then
        (let (df_sorted, h1) = new_frame h (sort_values_frame (h ! df));
             col = growth_column fm (frame_rows (h1 ! df_sorted));
             h2 = h1[df_sorted := setitem_growth (h1 ! df_sorted) col]
         in Some (df_sorted, h2))
      else None)"

text \<open>
  Lines 86-98, one run of the aggregation pipeline: \<open>filtered_df = df[...]\<close>, then
  \<open>filtered_df = calculate_gdp_growth(filtered_df)\<close>. The result is the address that
  \<open>filtered_df\<close> holds at the end, and the heap.
\<close>

definition pipeline ::
  "fill_method \<Rightarrow> 'a heap \<Rightarrow> addr \<Rightarrow> int \<times> int \<Rightarrow> string list \<Rightarrow> (addr \<times> 'a heap) option" where
  "pipeline fm h df year_range selected_countries =
     (case filter_step h df year_range selected_countries of
        None \<Rightarrow> None
      | Some (filtered, h1) \<Rightarrow> calculate_gdp_growth_obj fm h1 filtered)"

subsection \<open>Example frames\<close>

definition india_filtered :: "unit frame" where
  "india_filtered =
     Plain [\<lparr>country_name = ''India'', year = 2000, gdp = Fin 100\<rparr>,
            \<lparr>country_name = ''India'', year = 2001, gdp = Fin 110\<rparr>]"

definition india_growth :: "unit frame" where
  "india_growth =
     WithGrowth
       [(\<lparr>country_name = ''India'', year = 2000, gdp = Fin 100\<rparr>, NaN),
        (\<lparr>country_name = ''India'', year = 2001, gdp = Fin 110\<rparr>,
         Fin (5629499534213125 / 562949953421312))]"

section \<open>The data loader (app.py, lines 26-45)\<close>

text \<open>
  The loader asks which columns the file has, so its frames carry their column labels:
  a frame is the list of its columns, each a label with its cells, in file order.
  \<open>pd.read_csv\<close> is outside the repository; the loader is given what it returned: a
  frame, or the error it raised.
\<close>

datatype cell = Str string | Num rat | Missing

type_synonym dframe = "(string \<times> cell list) list"

datatype error = FileNotFoundError | ParserError | KeyError

definition columns :: "dframe \<Rightarrow> string list" where
  "columns df = map fst df"

text \<open>\<open>df[name]\<close>: the column with that label, \<open>KeyError\<close> when there is none.\<close>

definition getitem :: "dframe \<Rightarrow> string \<Rightarrow> error + cell list" where
  "getitem df name = (case map_of df name of None \<Rightarrow> Inl KeyError | Some col \<Rightarrow> Inr col)"

text \<open>\<open>df.rename(columns={old: new}, inplace=True)\<close>: only labels change.\<close>

definition rename_columns :: "string \<Rightarrow> string \<Rightarrow> dframe \<Rightarrow> dframe" where
  "rename_columns old new df = map (\<lambda>(n, col). (if n = old then new else n, col)) df"

text \<open>\<open>df[name] = col\<close>: replaces the column with that label, or appends a new last column.\<close>

fun setitem :: "dframe \<Rightarrow> string \<Rightarrow> cell list \<Rightarrow> dframe" where
  "setitem [] name col = [(name, col)]"
| "setitem ((n, c) # df) name col =
     (if n = name then (n, col) # df else (n, c) # setitem df name col)"

definition region_map :: "(string \<times> string list) list" where
  "region_map =
     [(''Asia'', [''CN'', ''IN'', ''JP'', ''ID'', ''KR'', ''SG'', ''SA'']),
      (''Europe'', [''DE'', ''FR'', ''GB'', ''IT'', ''RU'', ''ES'']),
      (''North America'', [''US'', ''CA'', ''MX'']),
      (''South America'', [''BR'', ''AR'', ''CO'']),
      (''Africa'', [''ZA'', ''NG'', ''EG'', ''KE'']),
      (''Oceania'', [''AU'', ''NZ''])]"

text \<open>
  The dict comprehension \<open>{code: region for region, codes in region_map.items() for code
  in codes}\<close>: the pairs in iteration order, each stored into the dict (a later pair with
  the same key would replace an earlier one).
\<close>

definition reverse_region_items :: "(string \<times> string) list" where
  "reverse_region_items =
     concat (map (\<lambda>(region, codes). map (\<lambda>code. (code, region)) codes) region_map)"

definition reverse_region :: "string \<rightharpoonup> string" where
  "reverse_region = fold (\<lambda>(code, region) d. d(code \<mapsto> region)) reverse_region_items Map.empty"

text \<open>
  \<open>Series.map(dict)\<close>: each cell is looked up in the dict; a cell that is not a key
  (a string outside the dict, a number, a missing cell) becomes missing.
\<close>

definition series_map :: "(string \<rightharpoonup> string) \<Rightarrow> cell list \<Rightarrow> cell list" where
  "series_map d col =
     map (\<lambda>c. case c of
                 Str s \<Rightarrow> (case d s of None \<Rightarrow> Missing | Some r \<Rightarrow> Str r)
               | Num x \<Rightarrow> Missing
               | Missing \<Rightarrow> Missing) col"

definition load_data :: "error + dframe \<Rightarrow> error + dframe" where
  "load_data read_csv =
     (case read_csv of
        Inl e \<Rightarrow> Inl e
      | Inr df0 \<Rightarrow>
          (let df1 = (if List.member (columns df0) ''Value''
                      then rename_columns ''Value'' ''GDP'' df0 else df0)
           in if List.member (columns df1) ''Country Code''
              then (case getitem df1 ''Country Code'' of
                      Inl e \<Rightarrow> Inl e
                    | Inr codes \<Rightarrow> Inr (setitem df1 ''Region'' (series_map reverse_region codes)))
              else Inr df1))"

subsection \<open>Vocabulary of the specification for the loader\<close>

text \<open>
  The label of a column after the alias normalisation; the region that the fixed mapping
  assigns to a country code, \<open>None\<close> for a code that is in none of the six code sets; the
  Region cell derived from a Country Code cell.
\<close>

definition rename_label :: "string \<Rightarrow> string" where
  "rename_label n = (if n = ''Value'' then ''GDP'' else n)"

definition region_of :: "string \<Rightarrow> string option" where
  "region_of code = map_option fst (find (\<lambda>(region, codes). code \<in> set codes) region_map)"

definition region_cell :: "cell \<Rightarrow> cell" where
  "region_cell c =
     (case c of
        Str code \<Rightarrow> (case region_of code of None \<Rightarrow> Missing | Some region \<Rightarrow> Str region)
      | Num x \<Rightarrow> Missing
      | Missing \<Rightarrow> Missing)"

subsection \<open>Example files\<close>

definition example_csv :: dframe where
  "example_csv =
     [(''Country Name'', [Str ''India'', Str ''Chad'', Str ''Japan'']),
      (''Country Code'', [Str ''IN'', Str ''TCD'', Missing]),
      (''Year'', [Num 2000, Num 2000, Num 2001]),
      (''Value'', [Num 100, Num 5, Missing])]"

definition example_loaded :: dframe where
  "example_loaded =
     [(''Country Name'', [Str ''India'', Str ''Chad'', Str ''Japan'']),
      (''Country Code'', [Str ''IN'', Str ''TCD'', Missing]),
      (''Year'', [Num 2000, Num 2000, Num 2001]),
      (''GDP'', [Num 100, Num 5, Missing]),
      (''Region'', [Str ''Asia'', Missing, Missing])]"

definition example_no_codes :: dframe where
  "example_no_codes =
     [(''Country Name'', [Str ''India'', Str ''Chad'']),
      (''Year'', [Num 2000, Num 2000]),
      (''value'', [Num 100, Num 5])]"

subsection \<open>The cache around the loader\<close>





section \<open>Properties of the arithmetic\<close>

lemma log2_floor_bounds:
  "0 < x \<Longrightarrow> 2 powi log2_floor x \<le> x \<and> x < 2 powi (log2_floor x + 1)"
proof (induction x rule: log2_floor.induct)
  case (1 x)
  show ?case
  proof (cases "2 \<le> x")
    case True
    then have e: "log2_floor x = log2_floor (x / 2) + 1"
      using 1(3) by (subst log2_floor.simps) simp
    have "2 powi log2_floor (x / 2) \<le> x / 2 \<and> x / 2 < 2 powi (log2_floor (x / 2) + 1)"
      using 1(1) True 1(3) by simp
    then show ?thesis
      unfolding e by (simp add: power_int_add field_simps)
  next
    case False
    show ?thesis
    proof (cases "x < 1")
      case True
      then have e: "log2_floor x = log2_floor (x * 2) - 1"
        using 1(3) False by (subst log2_floor.simps) simp
      have "2 powi log2_floor (x * 2) \<le> x * 2 \<and> x * 2 < 2 powi (log2_floor (x * 2) + 1)"
        using 1(2) True False 1(3) by simp
      then show ?thesis
        unfolding e by (simp add: power_int_add power_int_diff field_simps)
    next
      case ge: False
      then have "log2_floor x = 0"
        using False 1(3) by (subst log2_floor.simps) simp
      then show ?thesis using ge False by simp
    qed
  qed
qed

lemma round_half_even_error: "\<bar>of_int (round_half_even y) - y\<bar> \<le> 1 / 2"
proof -
  define n where "n = \<lfloor>y\<rfloor>"
  have b: "of_int n \<le> y" "y < of_int n + 1"
    unfolding n_def by linarith+
  show ?thesis
    unfolding round_half_even_def Let_def n_def [symmetric]
    using b by (auto simp: abs_if)
qed

lemma round_half_even_nonneg: "0 \<le> y \<Longrightarrow> 0 \<le> round_half_even y"
proof -
  assume "0 \<le> y"
  then have "0 \<le> \<lfloor>y\<rfloor>" by simp
  then show ?thesis
    unfolding round_half_even_def Let_def by auto
qed

lemma floor_numeral_div: "\<lfloor>(numeral a :: rat) / numeral b\<rfloor> = numeral a div numeral b"
  using floor_divide_of_int_eq [of "numeral a" "numeral b", where ?'a = rat] by simp

text \<open>The error of one rounding, where the exact result is below \<open>2^1023\<close> in size.\<close>

lemma round64_error:
  assumes "\<bar>x\<bar> \<le> 2 ^ 1023"
  shows "is_finite (round64 x) \<and> \<bar>fin_val (round64 x) - x\<bar> \<le> \<bar>x\<bar> / 2 ^ 53 + 1 / 2 ^ 1075"
proof (cases "x = 0")
  case True
  then show ?thesis by (simp add: round64_def is_finite_def)
next
  case False
  define a where "a = \<bar>x\<bar>"
  define e where "e = max (log2_floor a) (- 1022)"
  define q :: rat where "q = 2 powi (e - 52)"
  define r where "r = of_int (round_half_even (a / q)) * q"
  define M :: rat where "M = 2 ^ 1023"
  define eta :: rat where "eta = 1 / 2 ^ 1075"
  have a: "0 < a" "a \<le> M" using False assms by (simp_all add: a_def M_def)
  have q: "0 < q" by (simp add: q_def)
  have M: "4 \<le> M" "2 powi 1024 = 2 * M"
  proof -
    have "(2::rat) ^ 2 \<le> 2 ^ 1023" by (rule power_increasing) simp_all
    then show "4 \<le> M" by (simp add: M_def)
    have "(2::rat) powi 1024 = 2 ^ 1024" by (simp add: power_int_def)
    also have "\<dots> = 2 * 2 ^ 1023" by (simp only: power_Suc [symmetric]) simp
    finally show "2 powi 1024 = 2 * M" by (simp add: M_def)
  qed
  have eta: "0 < eta" "eta \<le> 1" by (simp_all add: eta_def)
  have "\<bar>of_int (round_half_even (a / q)) - a / q\<bar> \<le> 1 / 2"
    by (rule round_half_even_error)
  then have "\<bar>of_int (round_half_even (a / q)) - a / q\<bar> * q \<le> 1 / 2 * q"
    using q by (intro mult_right_mono) simp_all
  moreover have "\<bar>of_int (round_half_even (a / q)) - a / q\<bar> * q = \<bar>r - a\<bar>"
    using q by (simp add: r_def abs_mult [symmetric] left_diff_distrib abs_mult_pos)
  ultimately have err: "\<bar>r - a\<bar> \<le> q / 2" by simp
  have half: "q / 2 \<le> a / 2 ^ 53 + eta"
  proof (cases "- 1022 \<le> log2_floor a")
    case True
    then have "e = log2_floor a" by (simp add: e_def)
    then have "2 powi e \<le> a" using log2_floor_bounds [OF a(1)] by simp
    moreover have "q / 2 = 2 powi e / 2 ^ 53"
      by (simp add: q_def power_int_diff)
    ultimately have "q / 2 \<le> a / 2 ^ 53" by (simp add: divide_right_mono)
    then show ?thesis using eta by linarith
  next
    case False
    then have "e = - 1022" by (simp add: e_def)
    then have "q = 2 powi (- 1074)" by (simp add: q_def)
    also have "\<dots> = 1 / 2 ^ 1074" by (simp add: power_int_def field_simps)
    finally have "q / 2 = 1 / (2 * 2 ^ 1074)" by simp
    also have "\<dots> = eta" unfolding eta_def by (simp only: power_Suc [symmetric]) simp
    finally show ?thesis using a by simp
  qed
  have r0: "0 \<le> r"
    using q a by (simp add: r_def round_half_even_nonneg)
  have "a / 2 ^ 53 \<le> M / 2" using a M by simp
  then have rM: "r < 2 * M" using err half eta a M by linarith
  have unf: "round64 x =
     (if r = 0 then signed_zero (x < 0) else Fin (if x < 0 then - r else r))"
    using False rM M(2)
    by (simp add: round64_def Let_def a_def [symmetric] e_def [symmetric] q_def [symmetric]
        r_def [symmetric])
  have fin: "is_finite (round64 x)"
    unfolding unf by (simp add: is_finite_def signed_zero_def)
  have "fin_val (round64 x) = (if x < 0 then - r else r)"
    unfolding unf by (simp add: signed_zero_def)
  then have "\<bar>fin_val (round64 x) - x\<bar> = \<bar>r - a\<bar>"
    by (simp add: a_def abs_if)
  then show ?thesis
    using fin err half by (simp add: a_def eta_def)
qed

lemma is_finite_cases:
  "is_finite x \<Longrightarrow> x \<noteq> NaN \<and> \<not> is_inf x \<and> (is_zero x \<longleftrightarrow> fin_val x = 0)"
  by (cases x) (simp_all add: is_finite_def is_inf_def is_zero_def)

lemma fdiv_finite:
  assumes "is_finite x" "is_finite y" "\<not> is_zero y" "\<bar>fin_val x / fin_val y\<bar> \<le> 2 ^ 1023"
  shows "is_finite (fdiv x y)
         \<and> \<bar>fin_val (fdiv x y) - fin_val x / fin_val y\<bar>
             \<le> \<bar>fin_val x / fin_val y\<bar> / 2 ^ 53 + 1 / 2 ^ 1075"
proof (cases "is_zero x")
  case True
  then have "fdiv x y = signed_zero (sign_bit x \<noteq> sign_bit y)" "fin_val x = 0"
    using assms(1,2,3) is_finite_cases [of x] is_finite_cases [of y] by (simp_all add: fdiv_def)
  then show ?thesis by (simp add: signed_zero_def is_finite_def)
next
  case False
  then have "fdiv x y = round64 (fin_val x / fin_val y)"
    using assms(1,2,3) is_finite_cases [of x] is_finite_cases [of y] by (simp add: fdiv_def)
  then show ?thesis using round64_error [OF assms(4)] by simp
qed

lemma fsub_one_finite:
  assumes "is_finite x" "\<bar>fin_val x - 1\<bar> \<le> 2 ^ 1023"
  shows "is_finite (fsub x (Fin 1))
         \<and> \<bar>fin_val (fsub x (Fin 1)) - (fin_val x - 1)\<bar>
             \<le> \<bar>fin_val x - 1\<bar> / 2 ^ 53 + 1 / 2 ^ 1075"
proof (cases "fin_val x - 1 = 0")
  case True
  then have "fsub x (Fin 1) = Fin 0"
    using assms(1) is_finite_cases [of x] by (auto simp: fsub_def fadd_def is_inf_def)
  then show ?thesis using True by (simp add: is_finite_def)
next
  case False
  then have "fsub x (Fin 1) = round64 (fin_val x - 1)"
    using assms(1) is_finite_cases [of x] by (simp add: fsub_def fadd_def is_inf_def)
  then show ?thesis using round64_error [OF assms(2)] by simp
qed

lemma fmul_hundred_finite:
  assumes "is_finite x" "\<bar>fin_val x * 100\<bar> \<le> 2 ^ 1023"
  shows "is_finite (fmul x (Fin 100))
         \<and> \<bar>fin_val (fmul x (Fin 100)) - fin_val x * 100\<bar>
             \<le> \<bar>fin_val x * 100\<bar> / 2 ^ 53 + 1 / 2 ^ 1075"
proof (cases "is_zero x")
  case True
  then have "fmul x (Fin 100) = signed_zero (sign_bit x \<noteq> sign_bit (Fin 100))" "fin_val x = 0"
    using assms(1) is_finite_cases [of x] by (simp_all add: fmul_def is_inf_def is_zero_def)
  then show ?thesis by (simp add: signed_zero_def is_finite_def)
next
  case False
  then have "fmul x (Fin 100) = round64 (fin_val x * 100)"
    using assms(1) is_finite_cases [of x] by (simp add: fmul_def is_inf_def is_zero_def)
  then show ?thesis using round64_error [OF assms(2)] by simp
qed

text \<open>
  The value the code computes, \<open>(cur / prev - 1) * 100\<close> with three roundings, against
  the formula of the specification in exact arithmetic.
\<close>

lemma pct_growth_error:
  assumes "is_finite cur" "is_finite prev" "\<not> is_zero prev"
    and "\<bar>fin_val cur / fin_val prev\<bar> \<le> 2 ^ 1000"
  shows "is_finite (pct_growth cur prev)
         \<and> \<bar>fin_val (pct_growth cur prev)
              - (fin_val cur - fin_val prev) / fin_val prev * 100\<bar>
             \<le> (\<bar>fin_val cur / fin_val prev\<bar> + 1) / 2 ^ 43"
proof -
  define q where "q = fin_val cur / fin_val prev"
  define K :: rat where "K = 2 ^ 1000"
  define eta :: rat where "eta = 1 / 2 ^ 1075"
  define d where "d = fdiv cur prev"
  define s where "s = fsub d (Fin 1)"
  define p where "p = fmul s (Fin 100)"
  have K: "1 \<le> K" "(2::rat) ^ 1023 = 8388608 * K"
  proof -
    show "1 \<le> K" by (simp add: K_def)
    have "(2::rat) ^ 1023 = 2 ^ (23 + 1000)" by simp
    also have "\<dots> = 2 ^ 23 * 2 ^ 1000" by (rule power_add)
    finally show "(2::rat) ^ 1023 = 8388608 * K" by (simp add: K_def)
  qed
  have eta: "0 \<le> eta" "eta \<le> 1 / 2 ^ 53"
  proof -
    show "0 \<le> eta" by (simp add: eta_def)
    have "(2::rat) ^ 53 \<le> 2 ^ 1075" by (rule power_increasing) simp_all
    then show "eta \<le> 1 / 2 ^ 53" unfolding eta_def by (intro divide_left_mono) simp_all
  qed
  have qK: "\<bar>q\<bar> \<le> K" using assms(4) by (simp add: q_def K_def)
  have b: "fin_val prev \<noteq> 0" using assms(2,3) is_finite_cases by blast
  have x: "(fin_val cur - fin_val prev) / fin_val prev * 100 = (q - 1) * 100"
    using b by (simp add: q_def field_simps)
  have eta': "eta \<le> 1 / 9007199254740992" using eta(2) by simp
  define Q where "Q = \<bar>q\<bar>"
  define E1 where "E1 = \<bar>fin_val d - q\<bar>"
  define D where "D = \<bar>fin_val d - 1\<bar>"
  define E2 where "E2 = \<bar>fin_val s - (fin_val d - 1)\<bar>"
  define S where "S = \<bar>fin_val s\<bar>"
  define E3 where "E3 = \<bar>fin_val p - fin_val s * 100\<bar>"
  define T where "T = \<bar>fin_val p - (q - 1) * 100\<bar>"
  have Q: "0 \<le> Q" "Q \<le> K" using qK by (simp_all add: Q_def)
  have "\<bar>q\<bar> \<le> 2 ^ 1023" using qK K by linarith
  then have d: "is_finite d" "\<bar>fin_val d - q\<bar> \<le> \<bar>q\<bar> / 2 ^ 53 + eta"
    using fdiv_finite [OF assms(1,2,3)] by (simp_all add: q_def d_def eta_def)
  have e1: "E1 \<le> Q / 9007199254740992 + eta"
    using d(2) by (simp add: E1_def Q_def)
  have dq: "D \<le> Q + 1 + E1" unfolding D_def Q_def E1_def by linarith
  have d1: "D \<le> 4 * K" using dq e1 Q K(1) eta(1) eta' by linarith
  then have "\<bar>fin_val d - 1\<bar> \<le> 2 ^ 1023" using K unfolding D_def by linarith
  then have s: "is_finite s" "\<bar>fin_val s - (fin_val d - 1)\<bar> \<le> \<bar>fin_val d - 1\<bar> / 2 ^ 53 + eta"
    using fsub_one_finite [OF d(1)] by (simp_all add: s_def eta_def)
  have e2: "E2 \<le> D / 9007199254740992 + eta"
    using s(2) by (simp add: E2_def D_def)
  have sd: "S \<le> D + E2" unfolding S_def D_def E2_def by linarith
  have s1: "S \<le> 9 * K" using sd e2 d1 K(1) eta(1) eta' by linarith
  have abs100: "\<bar>fin_val s * 100\<bar> = S * 100" by (simp add: abs_mult S_def)
  then have s100: "\<bar>fin_val s * 100\<bar> \<le> 2 ^ 1023" using s1 K by linarith
  have p: "is_finite p" "\<bar>fin_val p - fin_val s * 100\<bar> \<le> \<bar>fin_val s * 100\<bar> / 2 ^ 53 + eta"
    using fmul_hundred_finite [OF s(1) s100] by (simp_all add: p_def eta_def)
  have e3: "E3 \<le> S * 100 / 9007199254740992 + eta"
    using p(2) unfolding abs100 by (simp add: E3_def)
  have "fin_val p - (q - 1) * 100 =
        (fin_val p - fin_val s * 100)
        + (100 * (fin_val s - (fin_val d - 1)) + 100 * (fin_val d - q))"
    by simp
  then have "T \<le> E3 + \<bar>100 * (fin_val s - (fin_val d - 1)) + 100 * (fin_val d - q)\<bar>"
    unfolding T_def E3_def by (simp only: abs_triangle_ineq)
  also have "\<bar>100 * (fin_val s - (fin_val d - 1)) + 100 * (fin_val d - q)\<bar>
      \<le> \<bar>100 * (fin_val s - (fin_val d - 1))\<bar> + \<bar>100 * (fin_val d - q)\<bar>"
    by (rule abs_triangle_ineq)
  also have "\<dots> = 100 * E2 + 100 * E1"
    unfolding E2_def E1_def abs_mult by simp
  finally have tri: "T \<le> E3 + 100 * E2 + 100 * E1"
    by simp
  have d2: "D \<le> 2 * Q + 2" using dq e1 Q(1) eta(1) eta' by linarith
  have e2': "E2 \<le> Q / 4503599627370496 + 3 / 9007199254740992"
    using e2 d2 eta' by linarith
  have s2: "S \<le> 3 * Q + 3" using sd d2 e2' Q(1) by linarith
  have e3': "E3 \<le> Q * 300 / 9007199254740992 + 301 / 9007199254740992"
    using e3 s2 eta' by linarith
  have "T \<le> Q * 600 / 9007199254740992 + 701 / 9007199254740992"
    using tri e3' e2' e1 eta' by linarith
  then have "T \<le> Q / 8796093022208 + 1 / 8796093022208"
    using Q(1) by linarith
  then have "T \<le> (Q + 1) / 8796093022208"
    by (simp add: add_divide_distrib)
  then have bound: "\<bar>fin_val p - (q - 1) * 100\<bar> \<le> (\<bar>q\<bar> + 1) / 2 ^ 43"
    by (simp add: T_def Q_def)
  have "pct_growth cur prev = p"
    by (simp add: pct_growth_def p_def s_def d_def)
  then show ?thesis
    unfolding x q_def [symmetric] using p(1) bound by blast
qed

section \<open>Properties of the aggregation pipeline\<close>

subsection \<open>Filtering\<close>

lemma and_col_map: "and_col (map P xs) (map Q xs) = map (\<lambda>x. P x \<and> Q x) xs"
  by (induction xs) (simp_all add: and_col_def)

lemma getitem_mask_map: "getitem_mask xs (map P xs) = filter P xs"
  by (induction xs) (simp_all add: getitem_mask_def)

lemma filtered_df_filter:
  "filtered_df df (lo, hi) sel =
     filter (\<lambda>r. lo \<le> year r \<and> year r \<le> hi \<and> country_name r \<in> set sel) df"
  by (simp add: filtered_df_def ge_col_def le_col_def isin_def and_col_map getitem_mask_map
      o_def List.member_iff conj_assoc)

subsection \<open>Arithmetic\<close>

lemma fdiv_NaN_right [simp]: "fdiv x NaN = NaN"
  by (simp add: fdiv_def)

lemma fsub_NaN_left [simp]: "fsub NaN y = NaN"
  by (simp add: fsub_def fadd_def)

lemma fmul_NaN_left [simp]: "fmul NaN y = NaN"
  by (simp add: fmul_def)

lemma pct_growth_NaN [simp]: "pct_growth x NaN = NaN"
  by (simp add: pct_growth_def)

lemma pct_zero_divisor: "is_zero z \<Longrightarrow> pct_growth x z \<in> {PInf, NInf, NaN}"
  by (cases x)
     (auto simp: pct_growth_def fdiv_def fsub_def fadd_def fmul_def is_zero_def is_inf_def
        signed_inf_def)

lemmas float_eval =
  pct_growth_def spec_growth_def fdiv_def fsub_def fadd_def fmul_def is_zero_def is_inf_def
  is_finite_def signed_inf_def signed_zero_def round64_def log2_floor.simps
  round_half_even_def Let_def floor_numeral_div

lemma pct_growth_110_100:
  "pct_growth (Fin 110) (Fin 100) = Fin (5629499534213125 / 562949953421312)"
  by (simp add: float_eval)

lemma pct_growth_99_110:
  "pct_growth (Fin 99) (Fin 110) = Fin (- (5629499534213119 / 562949953421312))"
  by (simp add: float_eval)

lemma pct_growth_150_100: "pct_growth (Fin 150) (Fin 100) = Fin 50"
  by (simp add: float_eval)

lemma pct_growth_100_100: "pct_growth (Fin 100) (Fin 100) = Fin 0"
  by (simp add: float_eval)

lemma pct_growth_5_PInf: "pct_growth (Fin 5) PInf = Fin (- 100)"
  by (simp add: float_eval)

lemma pct_growth_5_zero: "pct_growth (Fin 5) (Fin 0) = PInf"
  by (simp add: float_eval)

lemma spec_growth_examples:
  "spec_growth NaN (Fin 100) = NaN"
  "spec_growth (Fin 150) NaN = NaN"
  "spec_growth (Fin 5) PInf = NaN"
  by (simp_all add: spec_growth_def fsub_def fadd_def fdiv_def fmul_def is_inf_def is_zero_def
      signed_inf_def)

subsection \<open>Groups\<close>

lemma group_of_Nil [simp]: "group_of c [] xs = []" "group_of c ks [] = []"
  by (simp_all add: group_of_def)

lemma group_of_Cons [simp]:
  "group_of c (k # ks) (x # xs) = (if k = c then x # group_of c ks xs else group_of c ks xs)"
  by (simp add: group_of_def)

lemma group_of_shift:
  "length ks = length vs \<Longrightarrow>
   group_of c ks (groupby_shift seen ks vs) =
     take (length (group_of c ks vs)) (seen_or_nan seen c # group_of c ks vs)"
proof (induction ks vs arbitrary: seen rule: list_induct2)
  case Nil
  then show ?case by simp
next
  case (Cons k ks v vs)
  show ?case
    by (simp add: Cons.IH seen_or_nan_def)
qed

lemma group_of_ffill:
  "length ks = length vs \<Longrightarrow>
   group_of c ks (groupby_ffill seen ks vs) = ffill (seen_or_nan seen c) (group_of c ks vs)"
proof (induction ks vs arbitrary: seen rule: list_induct2)
  case Nil
  then show ?case by simp
next
  case (Cons k ks v vs)
  show ?case
    by (simp add: Cons.IH seen_or_nan_def Let_def)
qed

lemma length_groupby_ffill:
  "length ks = length vs \<Longrightarrow> length (groupby_ffill seen ks vs) = length vs"
  by (induction ks vs arbitrary: seen rule: list_induct2) (simp_all add: Let_def)

lemma length_groupby_shift:
  "length ks = length vs \<Longrightarrow> length (groupby_shift seen ks vs) = length vs"
  by (induction ks vs arbitrary: seen rule: list_induct2) simp_all

lemma length_ffill [simp]: "length (ffill p vs) = length vs"
  by (induction vs arbitrary: p) (simp_all add: Let_def)

lemma ffill_nth: "j < length vs \<Longrightarrow> vs ! j \<noteq> NaN \<Longrightarrow> ffill p vs ! j = vs ! j"
proof (induction vs arbitrary: p j)
  case Nil
  then show ?case by simp
next
  case (Cons v vs)
  then show ?case by (cases j) (simp_all add: Let_def)
qed

lemma group_of_map: "group_of c ks (map f xs) = map f (group_of c ks xs)"
proof (induction ks arbitrary: xs)
  case Nil
  then show ?case by simp
next
  case (Cons k ks)
  then show ?case by (cases xs) simp_all
qed

lemma group_of_map2:
  "length xs = length ys \<Longrightarrow> length ks = length xs \<Longrightarrow>
   group_of c ks (map2 g xs ys) = map2 g (group_of c ks xs) (group_of c ks ys)"
proof (induction ks arbitrary: xs ys)
  case Nil
  then show ?case by simp
next
  case (Cons k ks)
  then show ?case by (cases xs; cases ys) simp_all
qed

lemma group_of_all_same:
  "length ks = length xs \<Longrightarrow> \<forall>k \<in> set ks. k = c \<Longrightarrow> group_of c ks xs = xs"
  by (induction ks xs rule: list_induct2) simp_all

lemma group_of_columns:
  "group_of c (map country_name rs) (map f rs) = map f (filter (\<lambda>r. country_name r = c) rs)"
  by (induction rs) simp_all

lemma group_of_rows:
  "group_of c (map country_name rs) rs = filter (\<lambda>r. country_name r = c) rs"
  by (induction rs) simp_all

lemma length_pct_change [simp]:
  "length ks = length vs \<Longrightarrow> length (groupby_pct_change fm ks vs) = length vs"
  by (cases fm) (simp_all add: groupby_pct_change_def Let_def length_groupby_ffill length_groupby_shift)

lemma length_growth_column [simp]: "length (growth_column fm rs) = length rs"
  by (simp add: growth_column_def)

lemma length_pct_change_series [simp]: "length (pct_change_series fm vs) = length vs"
  by (cases fm) (simp_all add: pct_change_series_def Let_def)

lemma group_of_pct_change:
  assumes "length ks = length vs"
  shows "group_of c ks (groupby_pct_change fm ks vs) = pct_change_series fm (group_of c ks vs)"
proof (cases fm)
  case Ffill
  let ?F = "groupby_ffill Map.empty ks vs"
  have lF: "length ?F = length ks" using assms by (simp add: length_groupby_ffill)
  have "group_of c ks (groupby_pct_change fm ks vs) =
        map2 (\<lambda>f s. fsub (fdiv f s) (Fin 1)) (group_of c ks ?F)
          (group_of c ks (groupby_shift Map.empty ks ?F))"
    using Ffill lF by (simp add: groupby_pct_change_def Let_def group_of_map2 length_groupby_shift)
  also have "group_of c ks (groupby_shift Map.empty ks ?F) =
        take (length (group_of c ks ?F)) (NaN # group_of c ks ?F)"
    using lF by (simp add: group_of_shift seen_or_nan_def)
  also have "group_of c ks ?F = ffill NaN (group_of c ks vs)"
    using assms by (simp add: group_of_ffill seen_or_nan_def)
  finally show ?thesis using Ffill by (simp add: pct_change_series_def Let_def)
next
  case NoFill
  have "group_of c ks (groupby_pct_change fm ks vs) =
        map2 (\<lambda>f s. fsub (fdiv f s) (Fin 1)) (group_of c ks vs)
          (group_of c ks (groupby_shift Map.empty ks vs))"
    using NoFill assms by (simp add: groupby_pct_change_def Let_def group_of_map2 length_groupby_shift)
  also have "group_of c ks (groupby_shift Map.empty ks vs) =
        take (length (group_of c ks vs)) (NaN # group_of c ks vs)"
    using assms by (simp add: group_of_shift seen_or_nan_def)
  finally show ?thesis using NoFill by (simp add: pct_change_series_def Let_def)
qed

lemma group_of_growth_column:
  "group_of c (map country_name rs) (growth_column fm rs) =
     map (\<lambda>x. fmul x (Fin 100))
       (pct_change_series fm (map gdp (filter (\<lambda>r. country_name r = c) rs)))"
  by (simp add: growth_column_def group_of_map group_of_pct_change group_of_rows)

lemma filter_zip_fst:
  "length xs = length ys \<Longrightarrow>
   map fst (filter (\<lambda>p. P (fst p)) (zip xs ys)) = filter P xs"
  by (induction xs ys rule: list_induct2) simp_all

lemma filter_zip_snd:
  "length rs = length col \<Longrightarrow>
   map snd (filter (\<lambda>p. country_name (fst p) = c) (zip rs col)) =
     group_of c (map country_name rs) col"
  by (induction rs col rule: list_induct2) simp_all

lemma country_group_fst:
  "map fst (country_group c (rows_with_growth fm df)) =
     filter (\<lambda>r. country_name r = c) (sort_values df)"
  using filter_zip_fst [of "sort_values df" "growth_column fm (sort_values df)"
      "\<lambda>r. country_name r = c"]
  by (simp add: country_group_def rows_with_growth_def)

lemma country_group_snd:
  "map snd (country_group c (rows_with_growth fm df)) =
     map (\<lambda>x. fmul x (Fin 100))
       (pct_change_series fm (map gdp (filter (\<lambda>r. country_name r = c) (sort_values df))))"
  by (simp add: country_group_def rows_with_growth_def filter_zip_snd
      group_of_growth_column)

lemma length_sort_values [simp]: "length (sort_values df) = length df"
  by (simp add: sort_values_def)

lemma map_fst_rows_with_growth [simp]: "map fst (rows_with_growth fm df) = sort_values df"
  by (simp add: rows_with_growth_def)

lemma length_rows_with_growth [simp]: "length (rows_with_growth fm df) = length df"
  by (simp add: rows_with_growth_def)

lemma pct_change_series_first:
  "vs \<noteq> [] \<Longrightarrow> pct_change_series fm vs ! 0 = NaN"
  by (cases fm; cases vs) (simp_all add: pct_change_series_def Let_def)

lemma pct_change_series_nth:
  assumes "0 < j" "j < length vs"
  shows "pct_change_series fm vs ! j =
     fsub (fdiv ((case fm of Ffill \<Rightarrow> ffill NaN vs | NoFill \<Rightarrow> vs) ! j)
                ((case fm of Ffill \<Rightarrow> ffill NaN vs | NoFill \<Rightarrow> vs) ! (j - 1))) (Fin 1)"
proof -
  let ?F = "case fm of Ffill \<Rightarrow> ffill NaN vs | NoFill \<Rightarrow> vs"
  have lF: "length ?F = length vs" by (cases fm) simp_all
  have "take (length ?F) (NaN # ?F) ! j = ?F ! (j - 1)"
    using assms lF by (cases j) simp_all
  then show ?thesis
    using assms lF by (simp add: pct_change_series_def Let_def)
qed

lemma filled_present:
  "j < length vs \<Longrightarrow> vs ! j \<noteq> NaN \<Longrightarrow>
   (case fm of Ffill \<Rightarrow> ffill NaN vs | NoFill \<Rightarrow> vs) ! j = vs ! j"
  by (cases fm) (simp_all add: ffill_nth)

lemma group_first_null:
  assumes "country_group c (rows_with_growth fm df) \<noteq> []"
  shows "snd (country_group c (rows_with_growth fm df) ! 0) = NaN"
proof -
  let ?grp = "country_group c (rows_with_growth fm df)"
  let ?G = "filter (\<lambda>r. country_name r = c) (sort_values df)"
  have len: "length ?G = length ?grp"
    using country_group_fst [of c fm df] by (metis length_map)
  then have ne: "map gdp ?G \<noteq> []" using assms by auto
  have "snd (?grp ! 0) = map snd ?grp ! 0" using assms by simp
  also have "\<dots> = fmul (pct_change_series fm (map gdp ?G) ! 0) (Fin 100)"
    using ne by (simp add: country_group_snd)
  finally show ?thesis using ne by (simp add: pct_change_series_first)
qed

lemma group_growth_nth:
  assumes "0 < j" "j < length (country_group c (rows_with_growth fm df))"
  shows "snd (country_group c (rows_with_growth fm df) ! j) =
     fmul (pct_change_series fm
             (map (\<lambda>p. gdp (fst p)) (country_group c (rows_with_growth fm df))) ! j) (Fin 100)"
proof -
  let ?grp = "country_group c (rows_with_growth fm df)"
  let ?G = "filter (\<lambda>r. country_name r = c) (sort_values df)"
  have "map (\<lambda>p. gdp (fst p)) ?grp = map gdp (map fst ?grp)" by simp
  then have vals: "map (\<lambda>p. gdp (fst p)) ?grp = map gdp ?G"
    by (simp only: country_group_fst)
  have "snd (?grp ! j) = map snd ?grp ! j" using assms by simp
  also have "\<dots> = fmul (pct_change_series fm (map gdp ?G) ! j) (Fin 100)"
    using assms vals by (simp add: country_group_snd) (metis length_map length_pct_change_series nth_map)
  finally show ?thesis by (simp only: vals)
qed

lemma country_group_independent:
  "country_group c (rows_with_growth fm df) =
     rows_with_growth fm (filter (\<lambda>r. country_name r = c) df)"
proof -
  let ?G = "filter (\<lambda>r. country_name r = c) (sort_values df)"
  have sorted_filter: "sort_values (filter (\<lambda>r. country_name r = c) df) = ?G"
    by (simp add: sort_values_def filter_sort)
  have keys: "\<forall>k \<in> set (map country_name ?G). k = c" by auto
  have filt: "filter (\<lambda>r. country_name r = c) ?G = ?G" by simp
  have "growth_column fm ?G = group_of c (map country_name ?G) (growth_column fm ?G)"
    using keys by (simp add: group_of_all_same)
  also have "\<dots> = map (\<lambda>x. fmul x (Fin 100)) (pct_change_series fm (map gdp ?G))"
    by (simp only: group_of_growth_column filt)
  finally have col: "growth_column fm ?G = map snd (country_group c (rows_with_growth fm df))"
    by (simp add: country_group_snd)
  have "country_group c (rows_with_growth fm df) =
        zip (map fst (country_group c (rows_with_growth fm df)))
            (map snd (country_group c (rows_with_growth fm df)))"
    by (simp add: zip_map_fst_snd)
  also have "\<dots> = zip ?G (growth_column fm ?G)"
    by (simp only: country_group_fst col)
  finally show ?thesis
    by (simp add: rows_with_growth_def sorted_filter)
qed

lemma group_growth_code:
  assumes "0 < j" "j < length (country_group c (rows_with_growth fm df))"
    and "gdp (fst (country_group c (rows_with_growth fm df) ! j)) \<noteq> NaN"
    and "gdp (fst (country_group c (rows_with_growth fm df) ! (j - 1))) \<noteq> NaN"
  shows "snd (country_group c (rows_with_growth fm df) ! j) =
           pct_growth (gdp (fst (country_group c (rows_with_growth fm df) ! j)))
                      (gdp (fst (country_group c (rows_with_growth fm df) ! (j - 1))))"
proof -
  let ?grp = "country_group c (rows_with_growth fm df)"
  let ?vs = "map (\<lambda>p. gdp (fst p)) ?grp"
  have vj: "?vs ! j = gdp (fst (?grp ! j))" using assms(2) by simp
  have vp: "?vs ! (j - 1) = gdp (fst (?grp ! (j - 1)))" using assms(1,2) by simp
  let ?F = "case fm of Ffill \<Rightarrow> ffill NaN ?vs | NoFill \<Rightarrow> ?vs"
  have "?F ! j = ?vs ! j"
    using assms(2,3) vj by (intro filled_present) simp_all
  then have Fj: "?F ! j = gdp (fst (?grp ! j))"
    by (simp only: vj)
  have "?F ! (j - 1) = ?vs ! (j - 1)"
    using assms(1,2,4) vp by (intro filled_present) simp_all
  then have Fp: "?F ! (j - 1) = gdp (fst (?grp ! (j - 1)))"
    by (simp only: vp)
  have "pct_change_series fm ?vs ! j = fsub (fdiv (?F ! j) (?F ! (j - 1))) (Fin 1)"
    using assms(1,2) by (intro pct_change_series_nth) simp_all
  then have "fmul (pct_change_series fm ?vs ! j) (Fin 100) =
             pct_growth (gdp (fst (?grp ! j))) (gdp (fst (?grp ! (j - 1))))"
    by (simp only: Fj Fp pct_growth_def)
  moreover have "snd (?grp ! j) = fmul (pct_change_series fm ?vs ! j) (Fin 100)"
    using assms(1,2) by (rule group_growth_nth)
  ultimately show ?thesis
    by simp
qed

lemma group_growth_zero_divisor:
  assumes "0 < j" "j < length (country_group c (rows_with_growth fm df))"
    and "is_zero (gdp (fst (country_group c (rows_with_growth fm df) ! (j - 1))))"
  shows "snd (country_group c (rows_with_growth fm df) ! j) \<in> {PInf, NInf, NaN}"
proof -
  let ?grp = "country_group c (rows_with_growth fm df)"
  let ?vs = "map (\<lambda>p. gdp (fst p)) ?grp"
  have vp: "?vs ! (j - 1) = gdp (fst (?grp ! (j - 1)))" using assms(1,2) by simp
  have nn: "gdp (fst (?grp ! (j - 1))) \<noteq> NaN" using assms(3) by (auto simp: is_zero_def)
  let ?F = "case fm of Ffill \<Rightarrow> ffill NaN ?vs | NoFill \<Rightarrow> ?vs"
  have "?F ! (j - 1) = ?vs ! (j - 1)"
    using assms(1,2) nn vp by (intro filled_present) simp_all
  then have Fp: "?F ! (j - 1) = gdp (fst (?grp ! (j - 1)))"
    by (simp only: vp)
  have "pct_change_series fm ?vs ! j = fsub (fdiv (?F ! j) (?F ! (j - 1))) (Fin 1)"
    using assms(1,2) by (intro pct_change_series_nth) simp_all
  then have "fmul (pct_change_series fm ?vs ! j) (Fin 100) =
             pct_growth (?F ! j) (gdp (fst (?grp ! (j - 1))))"
    by (simp only: Fp pct_growth_def)
  moreover have "snd (?grp ! j) = fmul (pct_change_series fm ?vs ! j) (Fin 100)"
    using assms(1,2) by (rule group_growth_nth)
  ultimately have "snd (?grp ! j) = pct_growth (?F ! j) (gdp (fst (?grp ! (j - 1))))"
    by simp
  then show ?thesis
    using pct_zero_divisor [OF assms(3)] by simp
qed

subsection \<open>Frames\<close>

lemma map_fst_insort_key:
  "map fst (insort_key (\<lambda>p. f (fst p)) p ps) = insort_key f (fst p) (map fst ps)"
  by (induction ps) simp_all

lemma map_fst_sort_key: "map fst (sort_key (\<lambda>p. f (fst p)) ps) = sort_key f (map fst ps)"
  by (induction ps) (simp_all add: map_fst_insort_key)

lemma frame_rows_sort_values [simp]:
  "frame_rows (sort_values_frame df) = sort_values (frame_rows df)"
  by (cases df) (simp_all add: sort_values_def map_fst_sort_key)

lemma calculate_gdp_growth_rows:
  "calculate_gdp_growth fm df = WithGrowth (rows_with_growth fm (frame_rows df))"
  by (simp add: calculate_gdp_growth_def Let_def setitem_growth_def rows_with_growth_def)

lemma sort_values_permuted:
  assumes "mset rs' = mset rs" "inj_on sort_keys (set rs)"
  shows "sort_values rs' = sort_values rs"
proof -
  have "inj_on sort_keys (set rs')"
    using assms by (metis set_mset_mset)
  with assms(1) show ?thesis
    unfolding sort_values_def by (intro sort_key_eq_sort_key) simp_all
qed

lemmas pipeline_eval =
  calculate_gdp_growth_rows rows_with_growth_def growth_column_def sort_values_def sort_keys_def
  groupby_pct_change_def Let_def country_group_def
  pct_growth_110_100 [unfolded pct_growth_def] pct_growth_99_110 [unfolded pct_growth_def]
  pct_growth_150_100 [unfolded pct_growth_def] pct_growth_100_100 [unfolded pct_growth_def]
  pct_growth_5_PInf [unfolded pct_growth_def] pct_growth_5_zero [unfolded pct_growth_def]

lemma example_growth:
  "calculate_gdp_growth fm (Plain
      [\<lparr>country_name = c, year = y, gdp = Fin 100, \<dots> = m0\<rparr>,
       \<lparr>country_name = c, year = y + 1, gdp = Fin 110, \<dots> = m1\<rparr>,
       \<lparr>country_name = c, year = y + 2, gdp = Fin 99, \<dots> = m2\<rparr>]) =
   WithGrowth
      [(\<lparr>country_name = c, year = y, gdp = Fin 100, \<dots> = m0\<rparr>, NaN),
       (\<lparr>country_name = c, year = y + 1, gdp = Fin 110, \<dots> = m1\<rparr>,
        Fin (5629499534213125 / 562949953421312)),
       (\<lparr>country_name = c, year = y + 2, gdp = Fin 99, \<dots> = m2\<rparr>,
        Fin (- (5629499534213119 / 562949953421312)))]"
  by (cases fm) (simp_all add: pipeline_eval)

lemma group_growth_formula:
  assumes "0 < j" "j < length (country_group c (rows_with_growth fm df))"
    and "is_finite (gdp (fst (country_group c (rows_with_growth fm df) ! j)))"
    and "is_finite (gdp (fst (country_group c (rows_with_growth fm df) ! (j - 1))))"
    and "\<not> is_zero (gdp (fst (country_group c (rows_with_growth fm df) ! (j - 1))))"
    and "\<bar>fin_val (gdp (fst (country_group c (rows_with_growth fm df) ! j)))
          / fin_val (gdp (fst (country_group c (rows_with_growth fm df) ! (j - 1))))\<bar>
         \<le> 2 ^ 1000"
  shows "is_finite (snd (country_group c (rows_with_growth fm df) ! j))
     \<and> \<bar>fin_val (snd (country_group c (rows_with_growth fm df) ! j))
          - (fin_val (gdp (fst (country_group c (rows_with_growth fm df) ! j)))
             - fin_val (gdp (fst (country_group c (rows_with_growth fm df) ! (j - 1)))))
            / fin_val (gdp (fst (country_group c (rows_with_growth fm df) ! (j - 1)))) * 100\<bar>
         \<le> (\<bar>fin_val (gdp (fst (country_group c (rows_with_growth fm df) ! j)))
              / fin_val (gdp (fst (country_group c (rows_with_growth fm df) ! (j - 1))))\<bar> + 1)
            / 2 ^ 43"
proof -
  let ?grp = "country_group c (rows_with_growth fm df)"
  have "gdp (fst (?grp ! j)) \<noteq> NaN" "gdp (fst (?grp ! (j - 1))) \<noteq> NaN"
    using assms(3,4) by (auto simp: is_finite_def)
  then have "snd (?grp ! j) = pct_growth (gdp (fst (?grp ! j))) (gdp (fst (?grp ! (j - 1))))"
    using assms(1,2) by (intro group_growth_code)
  then show ?thesis
    using pct_growth_error [OF assms(3,4,5,6)] by simp
qed

subsection \<open>The claims about filtering and growth\<close>

text \<open>
  C1, as amended. The result has the growth column, and its rows are the input sorted by
  (Country Name, Year). Within the rows of one country \<open>c\<close> the first row has no growth
  value. A later row \<open>j\<close> whose GDP and whose predecessor's GDP are both present has the
  value the code computes from the two, \<open>(GDP[j] / GDP[j-1] - 1) * 100\<close> in binary64
  arithmetic; where the two are finite, the predecessor is not zero and the quotient is at
  most \<open>2^1000\<close> in size, that value is finite and differs from
  \<open>(GDP[j] - GDP[j-1]) / GDP[j-1] * 100\<close> by at most \<open>(|GDP[j] / GDP[j-1]| + 1) / 2^43\<close>.
  The rows of a country get the growth values they would get if the table held that
  country alone, so no other country contributes. For one country with GDP 100, 110, 99
  in three consecutive years the growth column is null, \<open>10 + 5 / 2^49\<close>
  (10.000000000000009) and \<open>-(10 - 1 / 2^49)\<close> (-9.999999999999998), each within
  \<open>10^-14\<close> of the 10 and -10 of the specification.
\<close>

theorem growth_within_country_groups:
  "\<exists>ps. calculate_gdp_growth fm df = WithGrowth ps
     \<and> map fst ps = sort_key (\<lambda>r. (country_name r, year r)) (frame_rows df)
     \<and> (\<forall>c. country_group c ps \<noteq> [] \<longrightarrow> snd (country_group c ps ! 0) = NaN)
     \<and> (\<forall>c j. 0 < j \<and> j < length (country_group c ps)
            \<and> gdp (fst (country_group c ps ! j)) \<noteq> NaN
            \<and> gdp (fst (country_group c ps ! (j - 1))) \<noteq> NaN
          \<longrightarrow> snd (country_group c ps ! j) =
                pct_growth (gdp (fst (country_group c ps ! j)))
                           (gdp (fst (country_group c ps ! (j - 1)))))
     \<and> (\<forall>c j. 0 < j \<and> j < length (country_group c ps)
            \<and> is_finite (gdp (fst (country_group c ps ! j)))
            \<and> is_finite (gdp (fst (country_group c ps ! (j - 1))))
            \<and> \<not> is_zero (gdp (fst (country_group c ps ! (j - 1))))
            \<and> \<bar>fin_val (gdp (fst (country_group c ps ! j)))
                 / fin_val (gdp (fst (country_group c ps ! (j - 1))))\<bar> \<le> 2 ^ 1000
          \<longrightarrow> is_finite (snd (country_group c ps ! j))
              \<and> \<bar>fin_val (snd (country_group c ps ! j))
                   - (fin_val (gdp (fst (country_group c ps ! j)))
                      - fin_val (gdp (fst (country_group c ps ! (j - 1)))))
                     / fin_val (gdp (fst (country_group c ps ! (j - 1)))) * 100\<bar>
                  \<le> (\<bar>fin_val (gdp (fst (country_group c ps ! j)))
                       / fin_val (gdp (fst (country_group c ps ! (j - 1))))\<bar> + 1) / 2 ^ 43)
     \<and> (\<forall>c. calculate_gdp_growth fm (Plain (filter (\<lambda>r. country_name r = c) (frame_rows df))) =
              WithGrowth (country_group c ps))
     \<and> (\<forall>c y m0 m1 m2.
          calculate_gdp_growth fm (Plain
            [\<lparr>country_name = c, year = y, gdp = Fin 100, \<dots> = m0\<rparr>,
             \<lparr>country_name = c, year = y + 1, gdp = Fin 110, \<dots> = m1\<rparr>,
             \<lparr>country_name = c, year = y + 2, gdp = Fin 99, \<dots> = m2 :: 'b\<rparr>]) =
          WithGrowth
            [(\<lparr>country_name = c, year = y, gdp = Fin 100, \<dots> = m0\<rparr>, NaN),
             (\<lparr>country_name = c, year = y + 1, gdp = Fin 110, \<dots> = m1\<rparr>,
              Fin (10 + 5 / 2 ^ 49)),
             (\<lparr>country_name = c, year = y + 2, gdp = Fin 99, \<dots> = m2\<rparr>,
              Fin (- (10 - 1 / 2 ^ 49)))])
     \<and> \<bar>(10 + 5 / 2 ^ 49) - (10::rat)\<bar> \<le> 1 / 10 ^ 14
     \<and> \<bar>- (10 - 1 / 2 ^ 49) - (- 10::rat)\<bar> \<le> 1 / 10 ^ 14"
proof (intro exI [of _ "rows_with_growth fm (frame_rows df)"] conjI allI impI)
  show "calculate_gdp_growth fm df = WithGrowth (rows_with_growth fm (frame_rows df))"
    by (rule calculate_gdp_growth_rows)
next
  show "map fst (rows_with_growth fm (frame_rows df)) =
        sort_key (\<lambda>r. (country_name r, year r)) (frame_rows df)"
    by (simp add: sort_values_def sort_keys_def [abs_def])
next
  fix c
  assume "country_group c (rows_with_growth fm (frame_rows df)) \<noteq> []"
  then show "snd (country_group c (rows_with_growth fm (frame_rows df)) ! 0) = NaN"
    by (rule group_first_null)
next
  fix c j
  assume h: "0 < j \<and> j < length (country_group c (rows_with_growth fm (frame_rows df)))
      \<and> gdp (fst (country_group c (rows_with_growth fm (frame_rows df)) ! j)) \<noteq> NaN
      \<and> gdp (fst (country_group c (rows_with_growth fm (frame_rows df)) ! (j - 1))) \<noteq> NaN"
  show "snd (country_group c (rows_with_growth fm (frame_rows df)) ! j) =
        pct_growth (gdp (fst (country_group c (rows_with_growth fm (frame_rows df)) ! j)))
          (gdp (fst (country_group c (rows_with_growth fm (frame_rows df)) ! (j - 1))))"
    by (rule group_growth_code) (use h in simp_all)
next
  fix c j
  let ?grp = "country_group c (rows_with_growth fm (frame_rows df))"
  assume h: "0 < j \<and> j < length ?grp
      \<and> is_finite (gdp (fst (?grp ! j)))
      \<and> is_finite (gdp (fst (?grp ! (j - 1))))
      \<and> \<not> is_zero (gdp (fst (?grp ! (j - 1))))
      \<and> \<bar>fin_val (gdp (fst (?grp ! j))) / fin_val (gdp (fst (?grp ! (j - 1))))\<bar> \<le> 2 ^ 1000"
  have e: "is_finite (snd (?grp ! j))
     \<and> \<bar>fin_val (snd (?grp ! j))
          - (fin_val (gdp (fst (?grp ! j))) - fin_val (gdp (fst (?grp ! (j - 1)))))
            / fin_val (gdp (fst (?grp ! (j - 1)))) * 100\<bar>
         \<le> (\<bar>fin_val (gdp (fst (?grp ! j))) / fin_val (gdp (fst (?grp ! (j - 1))))\<bar> + 1)
            / 2 ^ 43"
    by (rule group_growth_formula) (use h in blast)+
  from e show "is_finite (snd (?grp ! j))" ..
  from e show "\<bar>fin_val (snd (?grp ! j))
          - (fin_val (gdp (fst (?grp ! j))) - fin_val (gdp (fst (?grp ! (j - 1)))))
            / fin_val (gdp (fst (?grp ! (j - 1)))) * 100\<bar>
         \<le> (\<bar>fin_val (gdp (fst (?grp ! j))) / fin_val (gdp (fst (?grp ! (j - 1))))\<bar> + 1)
            / 2 ^ 43" ..
next
  fix c
  show "calculate_gdp_growth fm (Plain (filter (\<lambda>r. country_name r = c) (frame_rows df))) =
        WithGrowth (country_group c (rows_with_growth fm (frame_rows df)))"
    by (simp add: calculate_gdp_growth_rows country_group_independent)
next
  fix c y and m0 m1 m2 :: 'b
  have v: "(10 + 5 / 2 ^ 49 :: rat) = 5629499534213125 / 562949953421312"
    "(- (10 - 1 / 2 ^ 49) :: rat) = - (5629499534213119 / 562949953421312)"
    by simp_all
  show "calculate_gdp_growth fm (Plain
            [\<lparr>country_name = c, year = y, gdp = Fin 100, \<dots> = m0\<rparr>,
             \<lparr>country_name = c, year = y + 1, gdp = Fin 110, \<dots> = m1\<rparr>,
             \<lparr>country_name = c, year = y + 2, gdp = Fin 99, \<dots> = m2\<rparr>]) =
          WithGrowth
            [(\<lparr>country_name = c, year = y, gdp = Fin 100, \<dots> = m0\<rparr>, NaN),
             (\<lparr>country_name = c, year = y + 1, gdp = Fin 110, \<dots> = m1\<rparr>,
              Fin (10 + 5 / 2 ^ 49)),
             (\<lparr>country_name = c, year = y + 2, gdp = Fin 99, \<dots> = m2\<rparr>,
              Fin (- (10 - 1 / 2 ^ 49)))]"
    unfolding v by (rule example_growth)
next
  show "\<bar>(10 + 5 / 2 ^ 49) - (10::rat)\<bar> \<le> 1 / 10 ^ 14"
    by simp
next
  show "\<bar>- (10 - 1 / 2 ^ 49) - (- 10::rat)\<bar> \<le> 1 / 10 ^ 14"
    by simp
qed

lemmas example_rows = india_rows_def zero_rows_def missing_rows_def inf_rows_def

theorem growth_within_country_groups_witness:
  "calculate_gdp_growth Ffill (Plain india_rows) =
     WithGrowth
       [(\<lparr>country_name = ''India'', year = 2000, gdp = Fin 100\<rparr>, NaN),
        (\<lparr>country_name = ''India'', year = 2001, gdp = Fin 110\<rparr>,
         Fin (5629499534213125 / 562949953421312)),
        (\<lparr>country_name = ''India'', year = 2002, gdp = Fin 99\<rparr>,
         Fin (- (5629499534213119 / 562949953421312)))]
   \<and> (0::nat) < 1 \<and> (1::nat) < 3
   \<and> is_finite (Fin 110) \<and> is_finite (Fin 100) \<and> \<not> is_zero (Fin 100)
   \<and> \<bar>(110::rat) / 100\<bar> \<le> 2 ^ 1000
   \<and> \<bar>5629499534213125 / 562949953421312 - ((110::rat) - 100) / 100 * 100\<bar>
       \<le> (\<bar>(110::rat) / 100\<bar> + 1) / 2 ^ 43"
  using growth_within_country_groups [of Ffill "Plain india_rows"]
  by (simp add: pipeline_eval india_rows_def is_finite_def is_zero_def)

text \<open>
  C1 as stated (the formula for every row after the first of its group, on every input
  table) fails where a GDP value is missing or infinite. With forward filling, the
  default of pandas up to 2.x, the rows of GDP 100, missing, 150 get the growth values
  null, 0 and 50: the missing value is replaced by the 100 before it, where the formula
  has no value in the second and the third row. Under either fill method a row of GDP 5
  after a row of infinite GDP gets -100, where the formula gives \<open>NaN\<close>.
\<close>

theorem growth_formula_fails_on_missing_gdp:
  "calculate_gdp_growth Ffill (Plain missing_rows) =
     WithGrowth
       [(\<lparr>country_name = ''Peru'', year = 2000, gdp = Fin 100\<rparr>, NaN),
        (\<lparr>country_name = ''Peru'', year = 2001, gdp = NaN\<rparr>, Fin 0),
        (\<lparr>country_name = ''Peru'', year = 2002, gdp = Fin 150\<rparr>, Fin 50)]
   \<and> spec_growth NaN (Fin 100) = NaN
   \<and> spec_growth (Fin 150) NaN = NaN
   \<and> calculate_gdp_growth NoFill (Plain inf_rows) =
     WithGrowth
       [(\<lparr>country_name = ''Peru'', year = 2000, gdp = PInf\<rparr>, NaN),
        (\<lparr>country_name = ''Peru'', year = 2001, gdp = Fin 5\<rparr>, Fin (- 100))]
   \<and> calculate_gdp_growth Ffill (Plain inf_rows) =
     WithGrowth
       [(\<lparr>country_name = ''Peru'', year = 2000, gdp = PInf\<rparr>, NaN),
        (\<lparr>country_name = ''Peru'', year = 2001, gdp = Fin 5\<rparr>, Fin (- 100))]
   \<and> spec_growth (Fin 5) PInf = NaN"
  by (simp add: pipeline_eval example_rows spec_growth_examples)

text \<open>
  C2. The filtering step keeps exactly the rows whose Year lies in \<open>[lo, hi]\<close>, both ends
  included, and whose Country Name is one of the selected names, in their order and with
  their multiplicity; with no country selected the result is the empty table. The step is
  a total function: it raises nothing.
\<close>

theorem filtering_keeps_exactly_matching_rows:
  "filtered_df df (lo, hi) selected_countries =
     filter (\<lambda>r. lo \<le> year r \<and> year r \<le> hi \<and> country_name r \<in> set selected_countries) df
   \<and> filtered_df df (lo, hi) [] = []"
  by (simp add: filtered_df_filter)

text \<open>
  C7. A row after the first of its country whose predecessor's GDP is zero (of either
  sign) gets an infinite or NaN growth value; the value stands in the result table as it
  is, and the table keeps all its rows: nothing is guarded, raised or substituted.
\<close>

theorem zero_previous_gdp_gives_inf_or_nan:
  "\<exists>ps. calculate_gdp_growth fm df = WithGrowth ps
     \<and> (\<forall>c j. 0 < j \<and> j < length (country_group c ps)
            \<and> is_zero (gdp (fst (country_group c ps ! (j - 1))))
          \<longrightarrow> snd (country_group c ps ! j) \<in> {PInf, NInf, NaN})
     \<and> length ps = length (frame_rows df)"
proof (intro exI [of _ "rows_with_growth fm (frame_rows df)"] conjI allI impI)
  show "calculate_gdp_growth fm df = WithGrowth (rows_with_growth fm (frame_rows df))"
    by (rule calculate_gdp_growth_rows)
next
  fix c j
  assume h: "0 < j \<and> j < length (country_group c (rows_with_growth fm (frame_rows df)))
      \<and> is_zero (gdp (fst (country_group c (rows_with_growth fm (frame_rows df)) ! (j - 1))))"
  show "snd (country_group c (rows_with_growth fm (frame_rows df)) ! j) \<in> {PInf, NInf, NaN}"
    by (rule group_growth_zero_divisor) (use h in simp_all)
next
  show "length (rows_with_growth fm (frame_rows df)) = length (frame_rows df)"
    by (rule length_rows_with_growth)
qed

theorem zero_previous_gdp_gives_inf_or_nan_witness:
  "calculate_gdp_growth NoFill (Plain zero_rows) =
     WithGrowth
       [(\<lparr>country_name = ''Chad'', year = 2000, gdp = Fin 0\<rparr>, NaN),
        (\<lparr>country_name = ''Chad'', year = 2001, gdp = Fin 5\<rparr>, PInf)]
   \<and> (0::nat) < 1 \<and> (1::nat) < 2
   \<and> is_zero (Fin 0)
   \<and> PInf \<in> {PInf, NInf, NaN}"
  using zero_previous_gdp_gives_inf_or_nan [of NoFill "Plain zero_rows"]
  by (simp add: pipeline_eval zero_rows_def is_zero_def)

text \<open>
  C3. The data model of the specification has one row per country and year. For an input
  table in which rows with the same (Country Name, Year) are the same row, so for every
  table of that data model, every reordering of the rows gives the same result table:
  the function sorts on each call, and the sorted order does not depend on the input
  order.
\<close>

theorem growth_invariant_under_row_order:
  "mset (frame_rows df') = mset (frame_rows df) \<and> inj_on sort_keys (set (frame_rows df))
   \<longrightarrow> calculate_gdp_growth fm df' = calculate_gdp_growth fm df"
proof
  assume h: "mset (frame_rows df') = mset (frame_rows df)
      \<and> inj_on sort_keys (set (frame_rows df))"
  then have "sort_values (frame_rows df') = sort_values (frame_rows df)"
    by (intro sort_values_permuted) simp_all
  then show "calculate_gdp_growth fm df' = calculate_gdp_growth fm df"
    by (simp add: calculate_gdp_growth_rows rows_with_growth_def)
qed

theorem growth_invariant_under_row_order_witness:
  "mset (frame_rows (Plain [dup_second, peru_2001])) = mset (frame_rows (Plain [peru_2001, dup_second]))
   \<and> inj_on sort_keys (set (frame_rows (Plain [peru_2001, dup_second])))
   \<and> calculate_gdp_growth Ffill (Plain [dup_second, peru_2001]) =
       calculate_gdp_growth Ffill (Plain [peru_2001, dup_second])"
  using growth_invariant_under_row_order
    [of "Plain [dup_second, peru_2001]" "Plain [peru_2001, dup_second]" Ffill]
  by (simp add: dup_second_def peru_2001_def sort_keys_def)

text \<open>
  The hypothesis on the keys is used: the sort is stable, so two different rows of one
  country and year stay in their input order, and which of them is "the previous year"
  depends on that order.
\<close>

lemma equal_keys_keep_input_order:
  "calculate_gdp_growth fm (Plain [dup_first, dup_second]) \<noteq>
   calculate_gdp_growth fm (Plain [dup_second, dup_first])"
proof
  assume "calculate_gdp_growth fm (Plain [dup_first, dup_second]) =
          calculate_gdp_growth fm (Plain [dup_second, dup_first])"
  then have "map fst (rows_with_growth fm [dup_first, dup_second]) =
             map fst (rows_with_growth fm [dup_second, dup_first])"
    by (simp add: calculate_gdp_growth_rows)
  then show False
    by (simp add: sort_values_def sort_keys_def dup_first_def dup_second_def)
qed

text \<open>
  C10, as amended. The result of \<open>calculate_gdp_growth\<close> holds exactly the rows of its
  input, each with its columns other than \<open>GDP Growth %\<close> unchanged and reordered by the
  sort only: the rows of the result are the sorted input, they are a permutation of the
  input, and their number is the input's. The result has the column \<open>GDP Growth %\<close>. For
  an input without that column it is the one column added; for an input that has it
  already no column is added and the old values are replaced: the result is the same as
  for the input without the column.
\<close>

theorem growth_result_has_the_input_rows:
  "frame_rows (calculate_gdp_growth fm df) = sort_values (frame_rows df)
   \<and> mset (frame_rows (calculate_gdp_growth fm df)) = mset (frame_rows df)
   \<and> length (frame_rows (calculate_gdp_growth fm df)) = length (frame_rows df)
   \<and> growth_values (calculate_gdp_growth fm df) =
       Some (growth_column fm (sort_values (frame_rows df)))
   \<and> (\<forall>rs. growth_values (Plain rs) = None
          \<and> (\<exists>ps. calculate_gdp_growth fm (Plain rs) = WithGrowth ps
                \<and> map fst ps = sort_values rs))
   \<and> (\<forall>ps. calculate_gdp_growth fm (WithGrowth ps) =
            calculate_gdp_growth fm (Plain (map fst ps)))"
  by (simp add: calculate_gdp_growth_rows rows_with_growth_def sort_values_def)

theorem growth_result_has_the_input_rows_witness:
  "frame_rows (calculate_gdp_growth Ffill (Plain india_rows)) =
     [\<lparr>country_name = ''India'', year = 2000, gdp = Fin 100\<rparr>,
      \<lparr>country_name = ''India'', year = 2001, gdp = Fin 110\<rparr>,
      \<lparr>country_name = ''India'', year = 2002, gdp = Fin 99\<rparr>]
   \<and> growth_values (Plain india_rows) = None
   \<and> growth_values (calculate_gdp_growth Ffill (Plain india_rows)) =
       Some [NaN, Fin (5629499534213125 / 562949953421312),
             Fin (- (5629499534213119 / 562949953421312))]"
  using growth_result_has_the_input_rows [of Ffill "Plain india_rows"]
  by (simp add: pipeline_eval india_rows_def)

text \<open>
  C10 as stated fails on a table that already has the column \<open>GDP Growth %\<close>: the
  assignment in line 95 replaces the column, so the values of a pre-existing column
  change (here from 7 to null) and no column is added.
\<close>

theorem growth_replaces_an_existing_growth_column:
  "growth_values (WithGrowth [(peru_2001, Fin 7)]) = Some [Fin 7]
   \<and> growth_values (calculate_gdp_growth Ffill (WithGrowth [(peru_2001, Fin 7)])) = Some [NaN]
   \<and> growth_values (calculate_gdp_growth NoFill (WithGrowth [(peru_2001, Fin 7)])) = Some [NaN]
   \<and> frame_rows (calculate_gdp_growth Ffill (WithGrowth [(peru_2001, Fin 7)])) =
       frame_rows (WithGrowth [(peru_2001, Fin 7)])"
  by (simp add: pipeline_eval peru_2001_def)

section \<open>Properties of the frames as objects\<close>

lemma map_fst_getitem_mask:
  "map fst (getitem_mask ps bmask) = getitem_mask (map fst ps) bmask"
proof (induction ps arbitrary: bmask)
  case Nil
  then show ?case by (simp add: getitem_mask_def)
next
  case (Cons p ps)
  then show ?case by (cases bmask) (simp_all add: getitem_mask_def)
qed

lemma frame_rows_getitem_mask [simp]:
  "frame_rows (getitem_mask_frame f bmask) = getitem_mask (frame_rows f) bmask"
  by (cases f) (simp_all add: map_fst_getitem_mask)

text \<open>The frame that \<open>df[...]\<close> of lines 86-90 builds from the frame \<open>f\<close>.\<close>

lemma filter_step_result:
  assumes "df < length h"
  shows "\<exists>f. filter_step h df year_range selected_countries = Some (length h, h @ [f])
       \<and> frame_rows f = filtered_df (frame_rows (h ! df)) year_range selected_countries"
  using assms by (simp add: filter_step_def new_frame_def Let_def filtered_df_def)

lemma calculate_gdp_growth_obj_result:
  assumes "df < length h"
  shows "calculate_gdp_growth_obj fm h df =
         Some (length h, h @ [calculate_gdp_growth fm (h ! df)])"
  using assms by (simp add: calculate_gdp_growth_obj_def new_frame_def Let_def
      calculate_gdp_growth_def)

lemma pipeline_result:
  assumes "df < length h"
  shows "\<exists>f. filter_step h df year_range selected_countries = Some (length h, h @ [f])
       \<and> frame_rows f = filtered_df (frame_rows (h ! df)) year_range selected_countries
       \<and> calculate_gdp_growth_obj fm (h @ [f]) (length h) =
           Some (length h + 1, h @ [f, calculate_gdp_growth fm f])
       \<and> pipeline fm h df year_range selected_countries =
           Some (length h + 1, h @ [f, calculate_gdp_growth fm f])"
proof -
  obtain f where f: "filter_step h df year_range selected_countries = Some (length h, h @ [f])"
    "frame_rows f = filtered_df (frame_rows (h ! df)) year_range selected_countries"
    using filter_step_result [OF assms] by blast
  have "calculate_gdp_growth_obj fm (h @ [f]) (length h) =
        Some (length (h @ [f]), (h @ [f]) @ [calculate_gdp_growth fm ((h @ [f]) ! length h)])"
    by (rule calculate_gdp_growth_obj_result) simp
  then have c: "calculate_gdp_growth_obj fm (h @ [f]) (length h) =
        Some (length h + 1, h @ [f, calculate_gdp_growth fm f])"
    by simp
  then have "pipeline fm h df year_range selected_countries =
        Some (length h + 1, h @ [f, calculate_gdp_growth fm f])"
    by (simp add: pipeline_def f(1))
  with f c show ?thesis by blast
qed

lemma calculate_gdp_growth_same_rows:
  "frame_rows f = frame_rows g \<Longrightarrow> calculate_gdp_growth fm f = calculate_gdp_growth fm g"
  by (simp add: calculate_gdp_growth_rows)

lemmas heap_eval =
  pipeline_def filter_step_def calculate_gdp_growth_obj_def new_frame_def Let_def
  ge_col_def le_col_def isin_def and_col_def getitem_mask_def List.member_iff
  setitem_growth_def growth_column_def groupby_pct_change_def sort_values_def sort_keys_def
  pct_growth_110_100 [unfolded pct_growth_def] pct_growth_99_110 [unfolded pct_growth_def]
  india_rows_def india_filtered_def india_growth_def

subsection \<open>The claims about mutation and repeated runs\<close>

text \<open>
  C4. Neither step writes into an object that existed before it. The filtering step
  allocates its result and leaves every frame of the heap as it was;
  \<open>calculate_gdp_growth\<close> allocates the sorted copy, writes the growth column into that
  copy only, and leaves every frame of the heap as it was, its argument among them. So
  after the filter and then \<open>calculate_gdp_growth\<close>, the loaded dataset \<open>df\<close> and all
  other frames that existed before are unchanged, the filtered frame is unchanged by the
  growth step, and the result is a new object, different from the two.
\<close>

theorem pipeline_leaves_its_input_unchanged:
  "df < length h \<longrightarrow>
     (\<exists>filtered h1 result h2.
        filter_step h df year_range selected_countries = Some (filtered, h1)
        \<and> calculate_gdp_growth_obj fm h1 filtered = Some (result, h2)
        \<and> pipeline fm h df year_range selected_countries = Some (result, h2)
        \<and> take (length h) h1 = h \<and> take (length h) h2 = h
        \<and> h1 ! df = h ! df \<and> h2 ! df = h ! df
        \<and> h2 ! filtered = h1 ! filtered
        \<and> length h \<le> filtered \<and> filtered < result \<and> result < length h2)
     \<and> (\<exists>result h2.
        calculate_gdp_growth_obj fm h df = Some (result, h2)
        \<and> take (length h) h2 = h \<and> h2 ! df = h ! df
        \<and> length h \<le> result \<and> result < length h2
        \<and> h2 ! result = calculate_gdp_growth fm (h ! df))"
proof
  assume d: "df < length h"
  obtain f where f: "filter_step h df year_range selected_countries = Some (length h, h @ [f])"
    "calculate_gdp_growth_obj fm (h @ [f]) (length h) =
       Some (length h + 1, h @ [f, calculate_gdp_growth fm f])"
    "pipeline fm h df year_range selected_countries =
       Some (length h + 1, h @ [f, calculate_gdp_growth fm f])"
    using pipeline_result [OF d] by blast
  have "take (length h) (h @ [f]) = h \<and> take (length h) (h @ [f, calculate_gdp_growth fm f]) = h
        \<and> (h @ [f]) ! df = h ! df \<and> (h @ [f, calculate_gdp_growth fm f]) ! df = h ! df
        \<and> (h @ [f, calculate_gdp_growth fm f]) ! length h = (h @ [f]) ! length h
        \<and> length h \<le> length h \<and> length h < length h + 1
        \<and> length h + 1 < length (h @ [f, calculate_gdp_growth fm f])"
    using d by (simp add: nth_append)
  with f have first: "\<exists>filtered h1 result h2.
        filter_step h df year_range selected_countries = Some (filtered, h1)
        \<and> calculate_gdp_growth_obj fm h1 filtered = Some (result, h2)
        \<and> pipeline fm h df year_range selected_countries = Some (result, h2)
        \<and> take (length h) h1 = h \<and> take (length h) h2 = h
        \<and> h1 ! df = h ! df \<and> h2 ! df = h ! df
        \<and> h2 ! filtered = h1 ! filtered
        \<and> length h \<le> filtered \<and> filtered < result \<and> result < length h2"
    by blast
  have "calculate_gdp_growth_obj fm h df =
          Some (length h, h @ [calculate_gdp_growth fm (h ! df)])
        \<and> take (length h) (h @ [calculate_gdp_growth fm (h ! df)]) = h
        \<and> (h @ [calculate_gdp_growth fm (h ! df)]) ! df = h ! df
        \<and> length h \<le> length h \<and> length h < length (h @ [calculate_gdp_growth fm (h ! df)])
        \<and> (h @ [calculate_gdp_growth fm (h ! df)]) ! length h = calculate_gdp_growth fm (h ! df)"
    using d by (simp add: calculate_gdp_growth_obj_result nth_append)
  then have second: "\<exists>result h2.
        calculate_gdp_growth_obj fm h df = Some (result, h2)
        \<and> take (length h) h2 = h \<and> h2 ! df = h ! df
        \<and> length h \<le> result \<and> result < length h2
        \<and> h2 ! result = calculate_gdp_growth fm (h ! df)"
    by blast
  from first second show "(\<exists>filtered h1 result h2.
        filter_step h df year_range selected_countries = Some (filtered, h1)
        \<and> calculate_gdp_growth_obj fm h1 filtered = Some (result, h2)
        \<and> pipeline fm h df year_range selected_countries = Some (result, h2)
        \<and> take (length h) h1 = h \<and> take (length h) h2 = h
        \<and> h1 ! df = h ! df \<and> h2 ! df = h ! df
        \<and> h2 ! filtered = h1 ! filtered
        \<and> length h \<le> filtered \<and> filtered < result \<and> result < length h2)
     \<and> (\<exists>result h2.
        calculate_gdp_growth_obj fm h df = Some (result, h2)
        \<and> take (length h) h2 = h \<and> h2 ! df = h ! df
        \<and> length h \<le> result \<and> result < length h2
        \<and> h2 ! result = calculate_gdp_growth fm (h ! df))" ..
qed

theorem pipeline_leaves_its_input_unchanged_witness:
  "(0::nat) < length [Plain india_rows]
   \<and> filter_step [Plain india_rows] 0 (2000, 2001) [''India''] =
       Some (1, [Plain india_rows, india_filtered])
   \<and> calculate_gdp_growth_obj Ffill [Plain india_rows, india_filtered] 1 =
       Some (2, [Plain india_rows, india_filtered, india_growth])
   \<and> pipeline Ffill [Plain india_rows] 0 (2000, 2001) [''India''] =
       Some (2, [Plain india_rows, india_filtered, india_growth])"
  using pipeline_leaves_its_input_unchanged
    [where df = 0 and h = "[Plain india_rows]" and year_range = "(2000, 2001)"
       and selected_countries = "[''India'']" and fm = Ffill]
  by (simp add: heap_eval)

text \<open>
  C8. A run of the pipeline returns a frame that is a function of the rows of the base
  table, the year range and the selected countries only: the growth table of the
  filtered rows. A second run with the same parameters, from the heap the first run left
  (the base table is unchanged there), returns a new frame equal to the first, and the
  first result is still what it was.
\<close>

theorem pipeline_twice_gives_equal_tables:
  "df < length h \<longrightarrow>
     (\<exists>r1 h1 r2 h2.
        pipeline fm h df year_range selected_countries = Some (r1, h1)
        \<and> pipeline fm h1 df year_range selected_countries = Some (r2, h2)
        \<and> r1 < length h1 \<and> r2 < length h2 \<and> r1 \<noteq> r2
        \<and> h2 ! r2 = h1 ! r1
        \<and> h2 ! r1 = h1 ! r1
        \<and> h1 ! r1 =
            calculate_gdp_growth fm
              (Plain (filtered_df (frame_rows (h ! df)) year_range selected_countries)))"
proof
  assume d: "df < length h"
  obtain f where f:
    "frame_rows f = filtered_df (frame_rows (h ! df)) year_range selected_countries"
    "pipeline fm h df year_range selected_countries =
       Some (length h + 1, h @ [f, calculate_gdp_growth fm f])"
    using pipeline_result [OF d] by blast
  let ?h1 = "h @ [f, calculate_gdp_growth fm f]"
  have d1: "df < length ?h1" using d by simp
  have same: "?h1 ! df = h ! df" using d by (simp add: nth_append)
  obtain g where g:
    "frame_rows g = filtered_df (frame_rows (?h1 ! df)) year_range selected_countries"
    "pipeline fm ?h1 df year_range selected_countries =
       Some (length ?h1 + 1, ?h1 @ [g, calculate_gdp_growth fm g])"
    using pipeline_result [OF d1] by blast
  let ?h2 = "?h1 @ [g, calculate_gdp_growth fm g]"
  have fg: "calculate_gdp_growth fm g = calculate_gdp_growth fm f"
    by (rule calculate_gdp_growth_same_rows) (simp add: f(1) g(1) same)
  have fn: "calculate_gdp_growth fm f =
      calculate_gdp_growth fm
        (Plain (filtered_df (frame_rows (h ! df)) year_range selected_countries))"
    by (rule calculate_gdp_growth_same_rows) (simp add: f(1))
  have "length h + 1 < length ?h1 \<and> length ?h1 + 1 < length ?h2
      \<and> length h + 1 \<noteq> length ?h1 + 1
      \<and> ?h2 ! (length ?h1 + 1) = ?h1 ! (length h + 1)
      \<and> ?h2 ! (length h + 1) = ?h1 ! (length h + 1)
      \<and> ?h1 ! (length h + 1) =
            calculate_gdp_growth fm
              (Plain (filtered_df (frame_rows (h ! df)) year_range selected_countries))"
    by (simp add: nth_append fg fn)
  with f(2) g(2) show "\<exists>r1 h1 r2 h2.
        pipeline fm h df year_range selected_countries = Some (r1, h1)
        \<and> pipeline fm h1 df year_range selected_countries = Some (r2, h2)
        \<and> r1 < length h1 \<and> r2 < length h2 \<and> r1 \<noteq> r2
        \<and> h2 ! r2 = h1 ! r1
        \<and> h2 ! r1 = h1 ! r1
        \<and> h1 ! r1 =
            calculate_gdp_growth fm
              (Plain (filtered_df (frame_rows (h ! df)) year_range selected_countries))"
    by blast
qed

theorem pipeline_twice_gives_equal_tables_witness:
  "(0::nat) < length [Plain india_rows]
   \<and> pipeline Ffill [Plain india_rows] 0 (2000, 2001) [''India''] =
       Some (2, [Plain india_rows, india_filtered, india_growth])
   \<and> pipeline Ffill [Plain india_rows, india_filtered, india_growth] 0 (2000, 2001) [''India''] =
       Some (4, [Plain india_rows, india_filtered, india_growth, india_filtered, india_growth])
   \<and> [Plain india_rows, india_filtered, india_growth, india_filtered, india_growth] ! 4 =
       [Plain india_rows, india_filtered, india_growth] ! 2"
  using pipeline_twice_gives_equal_tables
    [where df = 0 and h = "[Plain india_rows]" and year_range = "(2000, 2001)"
       and selected_countries = "[''India'']" and fm = Ffill]
  by (simp add: heap_eval)

section \<open>Properties of the data loader\<close>

lemma reverse_region_region_of: "reverse_region code = region_of code"
  by (simp add: reverse_region_def reverse_region_items_def region_map_def region_of_def)

lemma columns_rename [simp]:
  "columns (rename_columns old new df) = map (\<lambda>n. if n = old then new else n) (columns df)"
  by (induction df) (auto simp: columns_def rename_columns_def)

lemma map_of_rename_other:
  "n \<noteq> old \<Longrightarrow> n \<noteq> new \<Longrightarrow> map_of (rename_columns old new df) n = map_of df n"
  by (induction df) (auto simp: rename_columns_def)

lemma map_of_rename_new:
  "new \<notin> set (columns df) \<Longrightarrow> map_of (rename_columns old new df) new = map_of df old"
  by (induction df) (auto simp: rename_columns_def columns_def)

lemma columns_setitem:
  "columns (setitem df name col) = (if name \<in> set (columns df) then columns df else columns df @ [name])"
  by (induction df name col rule: setitem.induct) (auto simp: columns_def)

lemma map_of_setitem_other:
  "n \<noteq> name \<Longrightarrow> map_of (setitem df name col) n = map_of df n"
  by (induction df name col rule: setitem.induct) auto

lemma map_of_setitem_same:
  "map_of (setitem df name col) name = Some col"
  by (induction df name col rule: setitem.induct) auto

lemma getitem_member:
  "name \<in> set (columns df) \<Longrightarrow> \<exists>col. getitem df name = Inr col"
  by (cases "map_of df name") (auto simp: getitem_def columns_def map_of_eq_None_iff)

lemma rename_absent: "old \<notin> set (columns df) \<Longrightarrow> rename_columns old new df = df"
  by (induction df) (auto simp: rename_columns_def columns_def)

lemma getitem_rename_other:
  "n \<noteq> old \<Longrightarrow> n \<noteq> new \<Longrightarrow> getitem (rename_columns old new df) n = getitem df n"
  by (simp add: getitem_def map_of_rename_other)

lemma getitem_rename_new:
  "new \<notin> set (columns df) \<Longrightarrow> getitem (rename_columns old new df) new = getitem df old"
  by (simp add: getitem_def map_of_rename_new)

lemma getitem_setitem_other:
  "n \<noteq> name \<Longrightarrow> getitem (setitem df name col) n = getitem df n"
  by (simp add: getitem_def map_of_setitem_other)

lemma getitem_setitem_same: "getitem (setitem df name col) name = Inr col"
  by (simp add: getitem_def map_of_setitem_same)

lemma getitem_absent: "name \<notin> set (columns df) \<Longrightarrow> getitem df name = Inl KeyError"
proof -
  assume "name \<notin> set (columns df)"
  then have "map_of df name = None"
    by (simp add: map_of_eq_None_iff columns_def)
  then show ?thesis
    by (simp add: getitem_def)
qed

lemma load_data_without_codes:
  "''Country Code'' \<notin> set (columns df0) \<Longrightarrow>
   load_data (Inr df0) = Inr (rename_columns ''Value'' ''GDP'' df0)"
  by (auto simp: load_data_def Let_def List.member_iff rename_absent)

lemma load_data_with_codes:
  assumes "getitem df0 ''Country Code'' = Inr codes"
  shows "load_data (Inr df0) =
         Inr (setitem (rename_columns ''Value'' ''GDP'' df0) ''Region''
                (series_map reverse_region codes))"
proof -
  have m: "''Country Code'' \<in> set (columns df0)"
    using assms getitem_absent [of "''Country Code''" df0] by auto
  have g: "getitem (rename_columns ''Value'' ''GDP'' df0) ''Country Code'' = Inr codes"
    using assms by (simp add: getitem_rename_other)
  show ?thesis
  proof (cases "''Value'' \<in> set (columns df0)")
    case True
    then show ?thesis using m g by (simp add: load_data_def Let_def List.member_iff)
  next
    case False
    then show ?thesis using m assms by (simp add: load_data_def Let_def List.member_iff rename_absent)
  qed
qed

lemma load_data_columns:
  "\<exists>out. load_data (Inr df0) = Inr out
       \<and> columns out = map rename_label (columns df0)
           @ (if ''Country Code'' \<in> set (columns df0) \<and> ''Region'' \<notin> set (columns df0)
              then [''Region''] else [])"
proof (cases "''Country Code'' \<in> set (columns df0)")
  case True
  then obtain codes where "getitem df0 ''Country Code'' = Inr codes"
    using getitem_member by blast
  then show ?thesis
    using True by (auto simp: load_data_with_codes columns_setitem rename_label_def [abs_def])
next
  case False
  then show ?thesis
    by (simp add: load_data_without_codes rename_label_def [abs_def])
qed

lemma load_data_other_columns:
  assumes "load_data (Inr df0) = Inr out" "n \<noteq> ''Value''" "n \<noteq> ''GDP''" "n \<noteq> ''Region''"
  shows "getitem out n = getitem df0 n"
proof (cases "''Country Code'' \<in> set (columns df0)")
  case True
  then obtain codes where "getitem df0 ''Country Code'' = Inr codes"
    using getitem_member by blast
  then show ?thesis
    using assms by (auto simp: load_data_with_codes getitem_setitem_other getitem_rename_other)
next
  case False
  then show ?thesis
    using assms by (auto simp: load_data_without_codes getitem_rename_other)
qed

lemma load_data_gdp_column:
  assumes "load_data (Inr df0) = Inr out" "''GDP'' \<notin> set (columns df0)"
  shows "getitem out ''GDP'' = getitem df0 ''Value''"
proof (cases "''Country Code'' \<in> set (columns df0)")
  case True
  then obtain codes where "getitem df0 ''Country Code'' = Inr codes"
    using getitem_member by blast
  then show ?thesis
    using assms by (auto simp: load_data_with_codes getitem_setitem_other getitem_rename_new)
next
  case False
  then show ?thesis
    using assms by (auto simp: load_data_without_codes getitem_rename_new)
qed

lemma series_map_reverse_region: "series_map reverse_region codes = map region_cell codes"
  by (simp add: series_map_def region_cell_def reverse_region_region_of split: cell.splits)

lemma region_of_unlisted:
  "\<forall>p \<in> set region_map. code \<notin> set (snd p) \<Longrightarrow> region_of code = None"
  by (simp add: region_map_def region_of_def)

lemma find_region_listed:
  "distinct (concat (map snd m)) \<Longrightarrow> (region, codes) \<in> set m \<Longrightarrow> code \<in> set codes \<Longrightarrow>
   find (\<lambda>(r, cs). code \<in> set cs) m = Some (region, codes)"
proof (induction m)
  case Nil
  then show ?case by simp
next
  case (Cons p m)
  obtain r0 cs0 where p: "p = (r0, cs0)" by (cases p)
  show ?case
  proof (cases "code \<in> set cs0")
    case True
    have "(region, codes) \<notin> set m"
    proof
      assume "(region, codes) \<in> set m"
      then have "code \<in> set (concat (map snd m))"
        using Cons.prems(3) by force
      then show False
        using Cons.prems(1) True p by auto
    qed
    then show ?thesis using Cons.prems(2) True p by simp
  next
    case False
    then have "(region, codes) \<in> set m"
      using Cons.prems(2,3) p by auto
    then show ?thesis
      using Cons.IH Cons.prems(1,3) False p by simp
  qed
qed

lemma region_codes_distinct: "distinct (concat (map snd region_map))"
  by (simp add: region_map_def)

lemma region_of_listed:
  "(region, codes) \<in> set region_map \<Longrightarrow> code \<in> set codes \<Longrightarrow> region_of code = Some region"
  by (simp add: region_of_def find_region_listed [OF region_codes_distinct])

lemmas loader_eval =
  load_data_def Let_def List.member_iff columns_def getitem_def rename_columns_def
  series_map_def reverse_region_region_of region_of_def region_map_def rename_label_def
  region_cell_def example_csv_def example_loaded_def example_no_codes_def

subsection \<open>The claims about the loader\<close>

text \<open>
  C5. The loader returns a table for every table read. Its column labels are those of the
  file in their order, with \<open>Value\<close> replaced by \<open>GDP\<close> and nothing else renamed (the only
  other change of the schema is the \<open>Region\<close> column of step 3, appended where the file
  has a \<open>Country Code\<close> column and no \<open>Region\<close> column); no column is labelled \<open>Value\<close>
  afterwards, and every column other than \<open>Value\<close>, \<open>GDP\<close> and \<open>Region\<close> has the cells it
  had. For a file with a \<open>Value\<close> column and no \<open>GDP\<close> column the result has a \<open>GDP\<close>
  column, and its cells are those of the file's \<open>Value\<close> column.
\<close>

theorem value_column_renamed_to_gdp:
  "\<exists>out. load_data (Inr df0) = Inr out
     \<and> columns out = map rename_label (columns df0)
         @ (if ''Country Code'' \<in> set (columns df0) \<and> ''Region'' \<notin> set (columns df0)
            then [''Region''] else [])
     \<and> ''Value'' \<notin> set (columns out)
     \<and> (\<forall>n. n \<noteq> ''Value'' \<and> n \<noteq> ''GDP'' \<and> n \<noteq> ''Region'' \<longrightarrow> getitem out n = getitem df0 n)
     \<and> (''Value'' \<in> set (columns df0) \<and> ''GDP'' \<notin> set (columns df0) \<longrightarrow>
          ''GDP'' \<in> set (columns out)
          \<and> (\<exists>vals. getitem df0 ''Value'' = Inr vals \<and> getitem out ''GDP'' = Inr vals))"
proof -
  obtain out where o: "load_data (Inr df0) = Inr out"
    and c: "columns out = map rename_label (columns df0)
         @ (if ''Country Code'' \<in> set (columns df0) \<and> ''Region'' \<notin> set (columns df0)
            then [''Region''] else [])"
    using load_data_columns by blast
  have v: "''Value'' \<notin> set (columns out)"
    unfolding c by (auto simp: rename_label_def)
  have r: "\<forall>n. n \<noteq> ''Value'' \<and> n \<noteq> ''GDP'' \<and> n \<noteq> ''Region'' \<longrightarrow> getitem out n = getitem df0 n"
    using o by (simp add: load_data_other_columns)
  have g: "''GDP'' \<in> set (columns out)
          \<and> (\<exists>vals. getitem df0 ''Value'' = Inr vals \<and> getitem out ''GDP'' = Inr vals)"
    if h: "''Value'' \<in> set (columns df0) \<and> ''GDP'' \<notin> set (columns df0)"
  proof
    have "rename_label ''Value'' \<in> rename_label ` set (columns df0)"
      using h by (intro imageI) simp
    then show "''GDP'' \<in> set (columns out)"
      unfolding c by (simp add: rename_label_def)
    obtain vals where "getitem df0 ''Value'' = Inr vals"
      using h getitem_member by blast
    then show "\<exists>vals. getitem df0 ''Value'' = Inr vals \<and> getitem out ''GDP'' = Inr vals"
      using load_data_gdp_column [OF o] h by simp
  qed
  show ?thesis
    using o c v r g by blast
qed

theorem value_column_renamed_to_gdp_witness:
  "''Value'' \<in> set (columns example_csv) \<and> ''GDP'' \<notin> set (columns example_csv)
   \<and> load_data (Inr example_csv) = Inr example_loaded
   \<and> getitem example_csv ''Value'' = Inr [Num 100, Num 5, Missing]
   \<and> getitem example_loaded ''GDP'' = Inr [Num 100, Num 5, Missing]
   \<and> ''GDP'' \<in> set (columns example_loaded) \<and> ''Value'' \<notin> set (columns example_loaded)"
  using value_column_renamed_to_gdp [of example_csv]
  by (simp add: loader_eval)

text \<open>
  C6. For a file with a \<open>Country Code\<close> column the loader's result has a \<open>Region\<close> column
  whose cell in each row is derived from the \<open>Country Code\<close> cell of that row: the region
  whose code set in the fixed mapping holds the code, and a missing cell for a code in
  none of the six code sets (and for a missing or numeric code cell). For a file without
  a \<open>Country Code\<close> column the column labels are those of the file after the renaming and
  the \<open>Region\<close> column is what it was in the file (absent, if the file has none): no
  column is added.
\<close>

theorem region_derived_from_country_code:
  "(''Country Code'' \<in> set (columns df0) \<longrightarrow>
      (\<exists>out codes. load_data (Inr df0) = Inr out
         \<and> getitem df0 ''Country Code'' = Inr codes
         \<and> getitem out ''Region'' = Inr (map region_cell codes)))
   \<and> (\<forall>region codes code. (region, codes) \<in> set region_map \<and> code \<in> set codes \<longrightarrow>
         region_cell (Str code) = Str region)
   \<and> (\<forall>code. (\<forall>p \<in> set region_map. code \<notin> set (snd p)) \<longrightarrow> region_cell (Str code) = Missing)
   \<and> region_cell Missing = Missing
   \<and> (\<forall>x. region_cell (Num x) = Missing)
   \<and> (''Country Code'' \<notin> set (columns df0) \<longrightarrow>
       (\<exists>out. load_data (Inr df0) = Inr out
          \<and> columns out = map rename_label (columns df0)
          \<and> getitem out ''Region'' = getitem df0 ''Region''))"
proof (intro conjI allI impI)
  assume "''Country Code'' \<in> set (columns df0)"
  then obtain codes where c: "getitem df0 ''Country Code'' = Inr codes"
    using getitem_member by blast
  then have "getitem (setitem (rename_columns ''Value'' ''GDP'' df0) ''Region''
                        (series_map reverse_region codes)) ''Region'' = Inr (map region_cell codes)"
    by (simp add: getitem_setitem_same series_map_reverse_region)
  with c show "\<exists>out codes. load_data (Inr df0) = Inr out
         \<and> getitem df0 ''Country Code'' = Inr codes
         \<and> getitem out ''Region'' = Inr (map region_cell codes)"
    by (simp add: load_data_with_codes)
next
  fix region codes code
  assume "(region, codes) \<in> set region_map \<and> code \<in> set codes"
  then have "region_of code = Some region"
    by (auto intro: region_of_listed)
  then show "region_cell (Str code) = Str region"
    by (simp add: region_cell_def)
next
  fix code
  assume "\<forall>p \<in> set region_map. code \<notin> set (snd p)"
  then have "region_of code = None"
    by (rule region_of_unlisted)
  then show "region_cell (Str code) = Missing"
    by (simp add: region_cell_def)
next
  show "region_cell Missing = Missing"
    by (simp add: region_cell_def)
next
  fix x
  show "region_cell (Num x) = Missing"
    by (simp add: region_cell_def)
next
  assume n: "''Country Code'' \<notin> set (columns df0)"
  then show "\<exists>out. load_data (Inr df0) = Inr out
          \<and> columns out = map rename_label (columns df0)
          \<and> getitem out ''Region'' = getitem df0 ''Region''"
    by (simp add: load_data_without_codes getitem_rename_other rename_label_def [abs_def])
qed

theorem region_derived_from_country_code_witness:
  "''Country Code'' \<in> set (columns example_csv)
   \<and> load_data (Inr example_csv) = Inr example_loaded
   \<and> getitem example_csv ''Country Code'' = Inr [Str ''IN'', Str ''TCD'', Missing]
   \<and> getitem example_loaded ''Region'' = Inr [Str ''Asia'', Missing, Missing]
   \<and> (''Asia'', [''CN'', ''IN'', ''JP'', ''ID'', ''KR'', ''SG'', ''SA'']) \<in> set region_map
   \<and> ''IN'' \<in> set [''CN'', ''IN'', ''JP'', ''ID'', ''KR'', ''SG'', ''SA'']
   \<and> region_cell (Str ''IN'') = Str ''Asia''
   \<and> region_cell (Str ''TCD'') = Missing
   \<and> ''Country Code'' \<notin> set (columns example_no_codes)
   \<and> load_data (Inr example_no_codes) = Inr example_no_codes
   \<and> getitem example_no_codes ''Region'' = Inl KeyError"
  using region_derived_from_country_code [of example_csv]
    region_derived_from_country_code [of example_no_codes]
  by (simp add: loader_eval)

section \<open>Properties of the cache\<close>







subsection \<open>The claim about caching\<close>



end
